theory Spec2Isabelle
  imports Main "HOL-Library.AList"
begin

section \<open>Python values the bot computes with\<close>

text \<open>
  Strings are \<^typ>\<open>string\<close>, one \<^typ>\<open>char\<close> per code point, so the model covers the
  code points below 256. Python's unbounded integers are \<^typ>\<open>int\<close>. A Python
  \<^verbatim>\<open>dict\<close> keeps its keys in insertion order and holds each key once: it is an
  association list, written with \<^const>\<open>map_of\<close>, \<^const>\<open>AList.update\<close> (overwrite in
  place, or append a new key at the end) and \<^const>\<open>AList.delete\<close>.
  Exceptions are values of \<open>exn\<close>.
\<close>

datatype exn = AttributeError | ValueError | TypeError | RuntimeError | JSONDecodeError
  | OverflowError

subsection \<open>\<^verbatim>\<open>str.strip()\<close>, \<^verbatim>\<open>str.lower()\<close>, \<^verbatim>\<open>int(str)\<close> and \<^verbatim>\<open>str(int)\<close>\<close>

text \<open>The white space of \<^verbatim>\<open>str.isspace\<close> below code point 256: tab to carriage return,
  the four separators 28 to 31, the space, NEL (133) and the no-break space (160).\<close>

definition isspace :: "char \<Rightarrow> bool" where
  "isspace c = (let n = (of_char c :: nat)
                in (9 \<le> n \<and> n \<le> 13) \<or> (28 \<le> n \<and> n \<le> 32) \<or> n = 133 \<or> n = 160)"

definition strip :: "string \<Rightarrow> string" where
  "strip s = rev (dropWhile isspace (rev (dropWhile isspace s)))"

definition lower_char :: "char \<Rightarrow> char" where
  "lower_char c = (let n = (of_char c :: nat)
                   in if (65 \<le> n \<and> n \<le> 90) \<or> (192 \<le> n \<and> n \<le> 222 \<and> n \<noteq> 215)
                      then char_of (n + 32) else c)"

definition lower :: "string \<Rightarrow> string" where
  "lower s = map lower_char s"

definition isdigit :: "char \<Rightarrow> bool" where
  "isdigit c = (let n = (of_char c :: nat) in 48 \<le> n \<and> n \<le> 57)"

definition digit_val :: "char \<Rightarrow> nat" where
  "digit_val c = of_char c - 48"

definition digit_char :: "nat \<Rightarrow> char" where
  "digit_char n = char_of (48 + n)"

text \<open>
  \<^verbatim>\<open>int(s)\<close> for a string, base 10. White space is skipped at both ends: below code
  point 128 that is tab to carriage return and the space only (the separators 28 to 31,
  which \<^verbatim>\<open>str.strip\<close> removes, are not skipped), above it NEL and the no-break space.
  One sign may lead, and the rest is decimal digits, where a single underscore may stand
  between two digits. A literal of more than 4300 digits (the interpreter's default
  \<^verbatim>\<open>int_max_str_digits\<close>; every digit counts, signs, underscores and white space do
  not) is refused. Anything else raises \<^verbatim>\<open>ValueError\<close>.
  \<open>parse_digits acc cs\<close> reads the characters after a digit, \<open>acc\<close> being the value read
  so far.
\<close>

definition int_space :: "char \<Rightarrow> bool" where
  "int_space c = (let n = (of_char c :: nat)
                  in (9 \<le> n \<and> n \<le> 13) \<or> n = 32 \<or> n = 133 \<or> n = 160)"

definition int_strip :: "string \<Rightarrow> string" where
  "int_strip s = rev (dropWhile int_space (rev (dropWhile int_space s)))"

definition max_str_digits :: int where
  "max_str_digits = 4300"

fun parse_digits :: "nat \<Rightarrow> string \<Rightarrow> nat option" where
  "parse_digits acc [] = Some acc"
| "parse_digits acc (c # cs) =
     (if isdigit c then parse_digits (10 * acc + digit_val c) cs
      else if c = CHR ''_'' then
        (case cs of
           [] \<Rightarrow> None
         | d # ds \<Rightarrow> if isdigit d then parse_digits (10 * acc + digit_val d) ds else None)
      else None)"

definition parse_nat :: "string \<Rightarrow> nat option" where
  "parse_nat s = (case s of
                    [] \<Rightarrow> None
                  | c # cs \<Rightarrow>
                      if isdigit c \<and> int (length (filter isdigit s)) \<le> max_str_digits
                      then parse_digits (digit_val c) cs else None)"

definition parse_int :: "string \<Rightarrow> int option" where
  "parse_int s =
     (case int_strip s of
        [] \<Rightarrow> None
      | c # cs \<Rightarrow>
          if c = CHR ''-'' then map_option (\<lambda>n. - int n) (parse_nat cs)
          else if c = CHR ''+'' then map_option int (parse_nat cs)
          else map_option int (parse_nat (c # cs)))"

definition int_of_str :: "string \<Rightarrow> exn + int" where
  "int_of_str s = (case parse_int s of None \<Rightarrow> Inl ValueError | Some n \<Rightarrow> Inr n)"

text \<open>\<^verbatim>\<open>str(n)\<close> for an integer: the decimal digits, after a minus sign when negative.
  The integers the bot formats are chat and user ids; the interpreter's refusal to
  format an integer of more than 4300 digits is not part of the model.\<close>

fun str_nat :: "nat \<Rightarrow> string" where
  "str_nat n = (if n < 10 then [digit_char n] else str_nat (n div 10) @ [digit_char (n mod 10)])"

declare str_nat.simps [simp del]

definition str_int :: "int \<Rightarrow> string" where
  "str_int i = (if i < 0 then CHR ''-'' # str_nat (nat (- i)) else str_nat (nat i))"

subsection \<open>Dictionaries\<close>

text \<open>\<^verbatim>\<open>d.get(k, dflt)\<close> reads and never inserts. \<^verbatim>\<open>d[k]\<close> on a
  \<^verbatim>\<open>defaultdict\<close> inserts the factory's value under a missing key, and returns it.\<close>

definition dict_get :: "'k \<Rightarrow> 'v \<Rightarrow> ('k \<times> 'v) list \<Rightarrow> 'v" where
  "dict_get k dflt d = (case map_of d k of Some v \<Rightarrow> v | None \<Rightarrow> dflt)"

definition dd_getitem :: "'k \<Rightarrow> 'v \<Rightarrow> ('k \<times> 'v) list \<Rightarrow> 'v \<times> ('k \<times> 'v) list" where
  "dd_getitem k dflt d = (case map_of d k of Some v \<Rightarrow> (v, d) | None \<Rightarrow> (dflt, d @ [(k, dflt)]))"

section \<open>The warning store (\<^verbatim>\<open>group_bot/storage.py\<close>)\<close>

text \<open>
  \<open>_data\<close> is a \<^verbatim>\<open>defaultdict\<close> of \<^verbatim>\<open>defaultdict(int)\<close>: chat key to user key to
  count. The file at \<open>path\<close> is read by \<^verbatim>\<open>json.load\<close> and written by \<^verbatim>\<open>json.dump\<close>;
  the model keeps the JSON document a file holds rather than its text (numbers with a
  fraction or an exponent are not represented), \<open>NotJson\<close> standing for a text that is
  no JSON document. The disk is the list of the files that exist, each path with its
  content.
\<close>

type_synonym counts = "(string \<times> int) list"
type_synonym chats = "(string \<times> counts) list"

datatype json = JNull | JBool bool | JInt int | JStr string | JArr "json list"
  | JObj "(string \<times> json) list"

datatype file_content = NotJson | Doc json

type_synonym disk = "(string \<times> file_content) list"

record warning_store =
  path :: string
  data :: chats

type_synonym sys = "warning_store \<times> disk"

text \<open>The \<^verbatim>\<open>dict\<close> that \<^verbatim>\<open>json.load\<close> builds from the members of an object, in the
  order of the text: a repeated key keeps its first place and its last value.\<close>

definition dict_of_members :: "(string \<times> 'v) list \<Rightarrow> (string \<times> 'v) list" where
  "dict_of_members ps = foldl (\<lambda>d (k, v). AList.update k v d) [] ps"

text \<open>\<^verbatim>\<open>int(count)\<close> on a loaded JSON value.\<close>

fun int_of_json :: "json \<Rightarrow> exn + int" where
  "int_of_json (JInt n) = Inr n"
| "int_of_json (JBool b) = Inr (if b then 1 else 0)"
| "int_of_json (JStr s) = int_of_str s"
| "int_of_json JNull = Inl TypeError"
| "int_of_json (JArr xs) = Inl TypeError"
| "int_of_json (JObj ps) = Inl TypeError"

text \<open>The expression \<^verbatim>\<open>self._data[c][u]\<close> and the assignment
  \<^verbatim>\<open>self._data[c][u] = v\<close>: both index the outer \<^verbatim>\<open>defaultdict\<close> first, which
  creates the chat's entry when it is missing.\<close>

definition getitem2 :: "string \<Rightarrow> string \<Rightarrow> chats \<Rightarrow> int \<times> chats" where
  "getitem2 c u dt =
     (let (users, dt1) = dd_getitem c [] dt;
          (v, users1) = dd_getitem u 0 users
      in (v, AList.update c users1 dt1))"

definition setitem2 :: "string \<Rightarrow> string \<Rightarrow> int \<Rightarrow> chats \<Rightarrow> chats" where
  "setitem2 c u v dt =
     (let (users, dt1) = dd_getitem c [] dt
      in AList.update c (AList.update u v users) dt1)"

fun load_users :: "string \<Rightarrow> (string \<times> json) list \<Rightarrow> chats \<Rightarrow> exn + chats" where
  "load_users chat_id [] dt = Inr dt"
| "load_users chat_id ((user_id, count) # rest) dt =
     (case int_of_json count of
        Inl e \<Rightarrow> Inl e
      | Inr n \<Rightarrow> load_users chat_id rest (setitem2 chat_id user_id n dt))"

fun load_chats :: "(string \<times> json) list \<Rightarrow> chats \<Rightarrow> exn + chats" where
  "load_chats [] dt = Inr dt"
| "load_chats ((chat_id, users) # rest) dt =
     (case users of
        JObj us \<Rightarrow>
          (case load_users chat_id (dict_of_members us) dt of
             Inl e \<Rightarrow> Inl e
           | Inr dt' \<Rightarrow> load_chats rest dt')
      | _ \<Rightarrow> Inl AttributeError)"

definition load :: "warning_store \<Rightarrow> disk \<Rightarrow> exn + warning_store" where
  "load s d =
     (case map_of d (path s) of
        None \<Rightarrow> Inr s
      | Some NotJson \<Rightarrow> Inl JSONDecodeError
      | Some (Doc raw) \<Rightarrow>
          (case raw of
             JObj cs \<Rightarrow>
               (case load_chats (dict_of_members cs) (data s) of
                  Inl e \<Rightarrow> Inl e
                | Inr dt \<Rightarrow> Inr (s\<lparr>data := dt\<rparr>))
           | _ \<Rightarrow> Inl AttributeError))"

text \<open>The constructor \<^verbatim>\<open>WarningStore(path)\<close>: an empty map, then \<^verbatim>\<open>_load\<close>.\<close>

definition new_store :: "string \<Rightarrow> disk \<Rightarrow> exn + warning_store" where
  "new_store p d = load \<lparr>path = p, data = []\<rparr> d"

definition serializable :: "chats \<Rightarrow> json" where
  "serializable dt =
     JObj (map (\<lambda>(chat, users). (chat, JObj (map (\<lambda>(u, n). (u, JInt n)) users))) dt)"

definition save :: "warning_store \<Rightarrow> disk \<Rightarrow> disk" where
  "save s d = AList.update (path s) (Doc (serializable (data s))) d"

definition increment :: "int \<Rightarrow> int \<Rightarrow> sys \<Rightarrow> int \<times> sys" where
  "increment chat_id user_id = (\<lambda>(s, d).
     let chat_key = str_int chat_id;
         user_key = str_int user_id;
         (old, dt1) = getitem2 chat_key user_key (data s);
         s1 = s\<lparr>data := setitem2 chat_key user_key (old + 1) dt1\<rparr>;
         d1 = save s1 d;
         (v, dt2) = getitem2 chat_key user_key (data s1)
     in (v, (s1\<lparr>data := dt2\<rparr>, d1)))"

definition reset :: "int \<Rightarrow> int \<Rightarrow> sys \<Rightarrow> sys" where
  "reset chat_id user_id = (\<lambda>(s, d).
     let chat_key = str_int chat_id;
         user_key = str_int user_id
     in if user_key \<in> set (map fst (dict_get chat_key [] (data s))) then
          let (users, dt1) = dd_getitem chat_key [] (data s);
              s1 = s\<lparr>data := AList.update chat_key (AList.delete user_key users) dt1\<rparr>
          in (s1, save s1 d)
        else (s, d))"

definition get :: "int \<Rightarrow> int \<Rightarrow> sys \<Rightarrow> int \<times> sys" where
  "get chat_id user_id = (\<lambda>(s, d).
     let chat_key = str_int chat_id;
         user_key = str_int user_id
     in (dict_get user_key 0 (dict_get chat_key [] (data s)), (s, d)))"

definition get_all :: "int \<Rightarrow> sys \<Rightarrow> counts \<times> sys" where
  "get_all chat_id = (\<lambda>(s, d).
     let chat_key = str_int chat_id
     in (dict_get chat_key [] (data s), (s, d)))"

subsection \<open>Sequences of store operations\<close>

text \<open>A client of the store calls its four public methods in some order; the results
  of the calls are dropped, the store and the disk are threaded through.\<close>

datatype store_op = Increment int int | Reset int int | Get int int | GetAll int

fun apply_op :: "store_op \<Rightarrow> sys \<Rightarrow> sys" where
  "apply_op (Increment c u) st = snd (increment c u st)"
| "apply_op (Reset c u) st = reset c u st"
| "apply_op (Get c u) st = snd (get c u st)"
| "apply_op (GetAll c) st = snd (get_all c st)"

definition run_ops :: "store_op list \<Rightarrow> sys \<Rightarrow> sys" where
  "run_ops ops st = foldl (\<lambda>st' x. apply_op x st') st ops"

text \<open>The specification's count, in its own words: the calls made since the most recent
  \<open>reset(c, u)\<close> (all of them when there was none), and among these the number of
  \<open>increment(c, u)\<close> calls.\<close>

definition since_last_reset :: "int \<Rightarrow> int \<Rightarrow> store_op list \<Rightarrow> store_op list" where
  "since_last_reset c u ops = rev (takeWhile (\<lambda>x. x \<noteq> Reset c u) (rev ops))"

definition increments_since_reset :: "int \<Rightarrow> int \<Rightarrow> store_op list \<Rightarrow> int" where
  "increments_since_reset c u ops =
     int (length (filter (\<lambda>x. x = Increment c u) (since_last_reset c u ops)))"

section \<open>Configuration (\<^verbatim>\<open>group_bot/config.py\<close>)\<close>

text \<open>
  The process environment \<^verbatim>\<open>os.environ\<close> is the list of the variables that are set,
  each with its value; \<^verbatim>\<open>os.environ.get(key)\<close> is \<^const>\<open>map_of\<close>.
  \<open>_env\<close> returns the default for a variable that is unset, empty or only white space.
\<close>

type_synonym environ = "(string \<times> string) list"

definition env :: "environ \<Rightarrow> string \<Rightarrow> string option \<Rightarrow> string option" where
  "env e key dflt =
     (case map_of e key of
        None \<Rightarrow> dflt
      | Some v \<Rightarrow> if strip v = [] then dflt else Some v)"

record settings =
  bot_token :: string
  warnings_limit :: int
  storage_path :: string
  admin_only_links :: bool

text \<open>
  \<open>Settings.from_env\<close>. Both \<^verbatim>\<open>raise RuntimeError\<close> statements are branches; the
  \<open>None\<close> branches of the three calls of \<open>_env\<close> that pass a default cannot be taken
  (\<open>_env\<close> returns a string there) and stand for what Python would raise on \<^verbatim>\<open>None\<close>.
\<close>

definition from_env :: "environ \<Rightarrow> exn + settings" where
  "from_env e =
     (case env e ''TELEGRAM_BOT_TOKEN'' None of
        None \<Rightarrow> Inl RuntimeError
      | Some token \<Rightarrow>
          if token = [] then Inl RuntimeError
          else
            (case env e ''WARNINGS_LIMIT'' (Some ''3'') of
               None \<Rightarrow> Inl TypeError
             | Some limit_raw \<Rightarrow>
                 (case int_of_str limit_raw of
                    Inl ex \<Rightarrow> if ex = ValueError then Inl RuntimeError else Inl ex
                  | Inr n \<Rightarrow>
                      (case env e ''WARNINGS_STORAGE'' (Some ''./warnings.json'') of
                         None \<Rightarrow> Inl TypeError
                       | Some sp \<Rightarrow>
                           (case env e ''ADMIN_ONLY_LINKS'' (Some ''true'') of
                              None \<Rightarrow> Inl AttributeError
                            | Some links \<Rightarrow>
                                Inr \<lparr>bot_token = token,
                                     warnings_limit = max 1 n,
                                     storage_path = sp,
                                     admin_only_links =
                                       (lower links \<in> {''1'', ''true'', ''yes''})\<rparr>)))))"

text \<open>A variable that is unset, empty or only white space.\<close>

definition blank :: "environ \<Rightarrow> string \<Rightarrow> bool" where
  "blank e key = (case map_of e key of None \<Rightarrow> True | Some v \<Rightarrow> strip v = [])"

section \<open>The handlers (\<^verbatim>\<open>group_bot/bot.py\<close>)\<close>

subsection \<open>Updates, the context and the platform\<close>

text \<open>
  What the handlers read of an update. \<open>reply_to_message\<close>, \<open>from_user\<close>,
  \<open>effective_chat\<close>, \<open>effective_user\<close>, \<open>message\<close> and \<open>chat_member\<close> are optional in the
  library, and \<open>None\<close> here; \<open>effective_chat\<close> is the chat's id. An update that carries
  an edited message or a membership change has no \<open>message\<close>. A date is the number of
  seconds since the epoch; the last second a \<^verbatim>\<open>datetime\<close> can hold, the end of the
  year 9999, is \<open>max_timestamp\<close>.
\<close>

definition max_timestamp :: int where
  "max_timestamp = 253402300799"

record user =
  user_id :: int
  full_name :: string

datatype message = Message (message_id: int) (date: int) (from_user: "user option")
  (reply_to_message: "message option") (new_chat_members: "user list")

datatype chat_member_status = Administrator | OtherStatus

record chat_member =
  status :: chat_member_status
  member :: user

record chat_member_updated =
  chat :: int
  new_chat_member :: chat_member

record update =
  message :: "message option"
  effective_chat :: "int option"
  effective_user :: "user option"
  chat_member :: "chat_member_updated option"

text \<open>
  The texts the bot sends, one constructor for each literal of the source, with the
  values formatted into it: the three static texts, the greeting, and for each command
  its guidance (reply to a message first), its refusal (admins only) and its report.
\<close>

datatype reply_msg =
    StartText | HelpText | RulesText | WelcomeText user
  | WarnGuide | WarnAdminOnly | WarnRecorded int user | AutoMuted user
  | WarnsGuide | WarnsCount user int
  | MuteGuide | MuteAdminOnly | Muted user int
  | UnmuteGuide | UnmuteAdminOnly | Unmuted user
  | BanGuide | BanAdminOnly | Banned user
  | LockAdminOnly | Locked | UnlockAdminOnly | Unlocked
  | NoWarnings | StatsLines counts
  | ResetGuide | ResetAdminOnly | ResetDone user
  | PinGuide | PinAdminOnly | Pinned
  | LinksForbidden user

text \<open>\<open>NoMessages\<close> is \<^verbatim>\<open>ChatPermissions(can_send_messages=False)\<close>, \<open>AllMessages\<close> the
  permissions with the ten sending rights set. The calls a handler makes to the Bot API
  are recorded in order; the moderation calls are those that change the chat.\<close>

datatype permissions = NoMessages | AllMessages

datatype api_call =
    GetChatAdministrators int
  | ReplyText reply_msg
  | SendMessage int reply_msg
  | RestrictChatMember int int permissions "int option"
  | BanChatMember int int
  | SetChatPermissions int permissions
  | PinMessage int
  | DeleteMessage int

fun is_moderation :: "api_call \<Rightarrow> bool" where
  "is_moderation (GetChatAdministrators c) = False"
| "is_moderation (ReplyText m) = False"
| "is_moderation (SendMessage c m) = False"
| "is_moderation (RestrictChatMember c u p t) = True"
| "is_moderation (BanChatMember c u) = True"
| "is_moderation (SetChatPermissions c p) = True"
| "is_moderation (PinMessage m) = True"
| "is_moderation (DeleteMessage m) = True"

text \<open>
  The handler's context: the command's arguments, the three entries that
  \<open>build_application\<close> puts into \<open>bot_data\<close> (the bot itself is the platform below), the
  entry \<open>admin_ids\<close> that only \<open>track_admin\<close> creates, and the world outside the process:
  the disk, the administrators the platform reports for each chat, and the calls made to
  the platform so far. A call to the platform returns; its failures are outside the model,
  and so is any change of the administrators while a handler runs.
\<close>

record ctx =
  args :: "string list"
  warnings :: warning_store
  settings :: settings
  admin_ids :: "(int \<times> int set) list option"
  disk :: disk
  chat_admins :: "(int \<times> int list) list"
  calls :: "api_call list"

datatype outcome = Returned | Raised exn

definition is_admin :: "user option \<Rightarrow> int list \<Rightarrow> bool" where
  "is_admin u admins = (case u of None \<Rightarrow> False | Some x \<Rightarrow> user_id x \<in> set admins)"

definition get_admin_ids :: "int \<Rightarrow> ctx \<Rightarrow> int list \<times> ctx" where
  "get_admin_ids chat_id c =
     (dict_get chat_id [] (chat_admins c), c\<lparr>calls := calls c @ [GetChatAdministrators chat_id]\<rparr>)"

definition call :: "api_call \<Rightarrow> ctx \<Rightarrow> ctx" where
  "call a c = c\<lparr>calls := calls c @ [a]\<rparr>"

text \<open>\<^verbatim>\<open>await update.message.reply_text(...)\<close>: an attribute of \<open>None\<close> when the update
  has no message.\<close>

definition reply_text :: "update \<Rightarrow> reply_msg \<Rightarrow> ctx \<Rightarrow> outcome \<times> ctx" where
  "reply_text upd m c =
     (case message upd of
        None \<Rightarrow> (Raised AttributeError, c)
      | Some msg \<Rightarrow> (Returned, call (ReplyText m) c))"

subsection \<open>The static texts and the greeting\<close>

definition start :: "update \<Rightarrow> ctx \<Rightarrow> outcome \<times> ctx" where
  "start upd c = reply_text upd StartText c"

definition help_command :: "update \<Rightarrow> ctx \<Rightarrow> outcome \<times> ctx" where
  "help_command upd c = reply_text upd HelpText c"

definition rules :: "update \<Rightarrow> ctx \<Rightarrow> outcome \<times> ctx" where
  "rules upd c = reply_text upd RulesText c"

text \<open>The handler \<^verbatim>\<open>welcome\<close> of the source.\<close>

definition welcome_members :: "update \<Rightarrow> ctx \<Rightarrow> outcome \<times> ctx" where
  "welcome_members upd c =
     (case message upd of
        None \<Rightarrow> (Returned, c)
      | Some m \<Rightarrow>
          (Returned, foldl (\<lambda>c' mem. call (ReplyText (WelcomeText mem)) c') c (new_chat_members m)))"

subsection \<open>Muting\<close>

text \<open>Lines 201 to 207 of \<open>mute_user\<close>: the duration in minutes, from the parameter, else
  from the first argument, else 10. Then \<^verbatim>\<open>update.message.date + timedelta(minutes=minutes)\<close>
  raises \<^verbatim>\<open>OverflowError\<close> when the sum is past the last \<^verbatim>\<open>datetime\<close>.\<close>

definition mute_minutes :: "int option \<Rightarrow> string list \<Rightarrow> exn + int" where
  "mute_minutes duration_minutes as =
     (case (case duration_minutes of
              Some n \<Rightarrow> Inr (Some n)
            | None \<Rightarrow>
                (case as of
                   [] \<Rightarrow> Inr None
                 | a # _ \<Rightarrow>
                     (case int_of_str a of
                        Inr n \<Rightarrow> Inr (Some (max 1 n))
                      | Inl e \<Rightarrow> if e = ValueError then Inr (Some 10) else Inl e))) of
        Inl e \<Rightarrow> Inl e
      | Inr minutes \<Rightarrow>
          Inr (case minutes of None \<Rightarrow> 10 | Some n \<Rightarrow> if n = 0 then 10 else n))"

definition mute_user :: "update \<Rightarrow> int option \<Rightarrow> ctx \<Rightarrow> outcome \<times> ctx" where
  "mute_user upd duration_minutes c =
     (case message upd of
        None \<Rightarrow> (Raised AttributeError, c)
      | Some m \<Rightarrow>
          (case reply_to_message m of
             None \<Rightarrow> (Returned, call (ReplyText MuteGuide) c)
           | Some r \<Rightarrow>
               (case from_user r of
                  None \<Rightarrow> (Returned, c)
                | Some target \<Rightarrow>
                    (case effective_chat upd of
                       None \<Rightarrow> (Raised AttributeError, c)
                     | Some chat_id \<Rightarrow>
                         (let (admins, c1) = get_admin_ids chat_id c
                          in if \<not> is_admin (effective_user upd) admins
                             then (Returned, call (ReplyText MuteAdminOnly) c1)
                             else
                               (case mute_minutes duration_minutes (args c1) of
                                  Inl e \<Rightarrow> (Raised e, c1)
                                | Inr minutes \<Rightarrow>
                                    if date m + 60 * minutes > max_timestamp
                                    then (Raised OverflowError, c1)
                                    else
                                      (let until_date = date m + 60 * minutes;
                                           c2 = call (RestrictChatMember chat_id (user_id target)
                                                  NoMessages (Some until_date)) c1
                                       in (Returned,
                                           call (ReplyText (Muted target minutes)) c2))))))))"

definition mute :: "update \<Rightarrow> ctx \<Rightarrow> outcome \<times> ctx" where
  "mute upd c = mute_user upd None c"

definition unmute :: "update \<Rightarrow> ctx \<Rightarrow> outcome \<times> ctx" where
  "unmute upd c =
     (case message upd of
        None \<Rightarrow> (Raised AttributeError, c)
      | Some m \<Rightarrow>
          (case reply_to_message m of
             None \<Rightarrow> (Returned, call (ReplyText UnmuteGuide) c)
           | Some r \<Rightarrow>
               (case from_user r of
                  None \<Rightarrow> (Returned, c)
                | Some target \<Rightarrow>
                    (case effective_chat upd of
                       None \<Rightarrow> (Raised AttributeError, c)
                     | Some chat_id \<Rightarrow>
                         (let (admins, c1) = get_admin_ids chat_id c
                          in if \<not> is_admin (effective_user upd) admins
                             then (Returned, call (ReplyText UnmuteAdminOnly) c1)
                             else
                               (let c2 = call (RestrictChatMember chat_id (user_id target)
                                           AllMessages None) c1
                                in (Returned, call (ReplyText (Unmuted target)) c2)))))))"

subsection \<open>Warnings\<close>

text \<open>The store's methods on the context: the store object and the disk it writes.\<close>

definition store_increment :: "int \<Rightarrow> int \<Rightarrow> ctx \<Rightarrow> int \<times> ctx" where
  "store_increment chat_id uid c =
     (let (n, (s, d)) = increment chat_id uid (warnings c, disk c)
      in (n, c\<lparr>warnings := s, disk := d\<rparr>))"

definition store_reset :: "int \<Rightarrow> int \<Rightarrow> ctx \<Rightarrow> ctx" where
  "store_reset chat_id uid c =
     (let (s, d) = reset chat_id uid (warnings c, disk c)
      in c\<lparr>warnings := s, disk := d\<rparr>)"

definition store_get :: "int \<Rightarrow> int \<Rightarrow> ctx \<Rightarrow> int \<times> ctx" where
  "store_get chat_id uid c =
     (let (n, (s, d)) = get chat_id uid (warnings c, disk c)
      in (n, c\<lparr>warnings := s, disk := d\<rparr>))"

definition store_get_all :: "int \<Rightarrow> ctx \<Rightarrow> counts \<times> ctx" where
  "store_get_all chat_id c =
     (let (ws, (s, d)) = get_all chat_id (warnings c, disk c)
      in (ws, c\<lparr>warnings := s, disk := d\<rparr>))"

definition warn :: "update \<Rightarrow> ctx \<Rightarrow> outcome \<times> ctx" where
  "warn upd c =
     (case message upd of
        None \<Rightarrow> (Raised AttributeError, c)
      | Some m \<Rightarrow>
          (case reply_to_message m of
             None \<Rightarrow> (Returned, call (ReplyText WarnGuide) c)
           | Some r \<Rightarrow>
               (case from_user r of
                  None \<Rightarrow> (Returned, c)
                | Some target \<Rightarrow>
                    (case effective_chat upd of
                       None \<Rightarrow> (Raised AttributeError, c)
                     | Some chat_id \<Rightarrow>
                         (let (admins, c1) = get_admin_ids chat_id c
                          in if \<not> is_admin (effective_user upd) admins
                             then (Returned, call (ReplyText WarnAdminOnly) c1)
                             else
                               (let (new_count, c2) = store_increment chat_id (user_id target) c1;
                                    limit = warnings_limit (settings c2);
                                    c3 = call (ReplyText (WarnRecorded new_count target)) c2
                                in if new_count \<ge> limit then
                                     (case mute_user upd (Some 60) c3 of
                                        (Raised e, c4) \<Rightarrow> (Raised e, c4)
                                      | (Returned, c4) \<Rightarrow>
                                          (let c5 = store_reset chat_id (user_id target) c4
                                           in (Returned, call (ReplyText (AutoMuted target)) c5)))
                                   else (Returned, c3)))))))"

definition warn_info :: "update \<Rightarrow> ctx \<Rightarrow> outcome \<times> ctx" where
  "warn_info upd c =
     (case message upd of
        None \<Rightarrow> (Raised AttributeError, c)
      | Some m \<Rightarrow>
          (case reply_to_message m of
             None \<Rightarrow> (Returned, call (ReplyText WarnsGuide) c)
           | Some r \<Rightarrow>
               (case from_user r of
                  None \<Rightarrow> (Returned, c)
                | Some target \<Rightarrow>
                    (case effective_chat upd of
                       None \<Rightarrow> (Raised AttributeError, c)
                     | Some chat_id \<Rightarrow>
                         (let (n, c1) = store_get chat_id (user_id target) c
                          in (Returned, call (ReplyText (WarnsCount target n)) c1))))))"

definition reset_warns :: "update \<Rightarrow> ctx \<Rightarrow> outcome \<times> ctx" where
  "reset_warns upd c =
     (case message upd of
        None \<Rightarrow> (Raised AttributeError, c)
      | Some m \<Rightarrow>
          (case reply_to_message m of
             None \<Rightarrow> (Returned, call (ReplyText ResetGuide) c)
           | Some r \<Rightarrow>
               (case from_user r of
                  None \<Rightarrow> (Returned, c)
                | Some target \<Rightarrow>
                    (case effective_chat upd of
                       None \<Rightarrow> (Raised AttributeError, c)
                     | Some chat_id \<Rightarrow>
                         (let (admins, c1) = get_admin_ids chat_id c
                          in if \<not> is_admin (effective_user upd) admins
                             then (Returned, call (ReplyText ResetAdminOnly) c1)
                             else
                               (let c2 = store_reset chat_id (user_id target) c1
                                in (Returned, call (ReplyText (ResetDone target)) c2)))))))"

definition stats :: "update \<Rightarrow> ctx \<Rightarrow> outcome \<times> ctx" where
  "stats upd c =
     (case effective_chat upd of
        None \<Rightarrow> (Raised AttributeError, c)
      | Some chat_id \<Rightarrow>
          (let (ws, c1) = store_get_all chat_id c
           in if ws = [] then reply_text upd NoWarnings c1
              else reply_text upd (StatsLines ws) c1))"

subsection \<open>Banning, locking and pinning\<close>

definition ban :: "update \<Rightarrow> ctx \<Rightarrow> outcome \<times> ctx" where
  "ban upd c =
     (case message upd of
        None \<Rightarrow> (Raised AttributeError, c)
      | Some m \<Rightarrow>
          (case reply_to_message m of
             None \<Rightarrow> (Returned, call (ReplyText BanGuide) c)
           | Some r \<Rightarrow>
               (case from_user r of
                  None \<Rightarrow> (Returned, c)
                | Some target \<Rightarrow>
                    (case effective_chat upd of
                       None \<Rightarrow> (Raised AttributeError, c)
                     | Some chat_id \<Rightarrow>
                         (let (admins, c1) = get_admin_ids chat_id c
                          in if \<not> is_admin (effective_user upd) admins
                             then (Returned, call (ReplyText BanAdminOnly) c1)
                             else
                               (let c2 = call (BanChatMember chat_id (user_id target)) c1
                                in (Returned, call (ReplyText (Banned target)) c2)))))))"

definition lock_chat :: "update \<Rightarrow> ctx \<Rightarrow> outcome \<times> ctx" where
  "lock_chat upd c =
     (case effective_chat upd of
        None \<Rightarrow> (Raised AttributeError, c)
      | Some chat_id \<Rightarrow>
          (let (admins, c1) = get_admin_ids chat_id c
           in if \<not> is_admin (effective_user upd) admins
              then reply_text upd LockAdminOnly c1
              else reply_text upd Locked (call (SetChatPermissions chat_id NoMessages) c1)))"

definition unlock_chat :: "update \<Rightarrow> ctx \<Rightarrow> outcome \<times> ctx" where
  "unlock_chat upd c =
     (case effective_chat upd of
        None \<Rightarrow> (Raised AttributeError, c)
      | Some chat_id \<Rightarrow>
          (let (admins, c1) = get_admin_ids chat_id c
           in if \<not> is_admin (effective_user upd) admins
              then reply_text upd UnlockAdminOnly c1
              else reply_text upd Unlocked (call (SetChatPermissions chat_id AllMessages) c1)))"

definition pin :: "update \<Rightarrow> ctx \<Rightarrow> outcome \<times> ctx" where
  "pin upd c =
     (case message upd of
        None \<Rightarrow> (Raised AttributeError, c)
      | Some m \<Rightarrow>
          (case reply_to_message m of
             None \<Rightarrow> (Returned, call (ReplyText PinGuide) c)
           | Some r \<Rightarrow>
               (case effective_chat upd of
                  None \<Rightarrow> (Raised AttributeError, c)
                | Some chat_id \<Rightarrow>
                    (let (admins, c1) = get_admin_ids chat_id c
                     in if \<not> is_admin (effective_user upd) admins
                        then (Returned, call (ReplyText PinAdminOnly) c1)
                        else
                          (let c2 = call (PinMessage (message_id r)) c1
                           in (Returned, call (ReplyText Pinned) c2))))))"

subsection \<open>Links and the administrator cache\<close>

definition block_links :: "update \<Rightarrow> ctx \<Rightarrow> outcome \<times> ctx" where
  "block_links upd c =
     (case message upd of
        None \<Rightarrow> (Returned, c)
      | Some m \<Rightarrow>
          (case from_user m of
             None \<Rightarrow> (Returned, c)
           | Some sender \<Rightarrow>
               (case effective_chat upd of
                  None \<Rightarrow> (Raised AttributeError, c)
                | Some chat_id \<Rightarrow>
                    if \<not> admin_only_links (settings c) then (Returned, c)
                    else
                      (let (admins, c1) = get_admin_ids chat_id c
                       in if is_admin (Some sender) admins then (Returned, c1)
                          else
                            (let c2 = call (DeleteMessage (message_id m)) c1
                             in (Returned, call (SendMessage chat_id (LinksForbidden sender)) c2))))))"

text \<open>\<open>track_admin\<close>: \<^verbatim>\<open>bot_data.setdefault("admin_ids", {})\<close> creates the entry, and an
  update that makes a member an administrator adds the member's id to the chat's set.\<close>

definition track_admin :: "update \<Rightarrow> ctx \<Rightarrow> outcome \<times> ctx" where
  "track_admin upd c =
     (case chat_member upd of
        None \<Rightarrow> (Returned, c)
      | Some cm \<Rightarrow>
          (let chat_id = chat cm;
               ids = (case admin_ids c of None \<Rightarrow> [] | Some x \<Rightarrow> x)
           in if status (new_chat_member cm) = Administrator then
                (let (s, ids1) = dd_getitem chat_id {} ids
                 in (Returned, c\<lparr>admin_ids := Some (AList.update chat_id
                       (insert (user_id (member (new_chat_member cm))) s) ids1)\<rparr>))
              else (Returned, c\<lparr>admin_ids := Some ids\<rparr>)))"

subsection \<open>The handlers that \<open>build_application\<close> registers\<close>

datatype handler =
    CmdStart | CmdHelp | CmdKomak | CmdRules | CmdWarn | CmdWarns | CmdMute | CmdUnmute
  | CmdLock | CmdUnlock | CmdBan | CmdResetwarns | CmdPin | CmdStats
  | NewChatMembers | LinkMessage | MyChatMember

fun handle :: "handler \<Rightarrow> update \<Rightarrow> ctx \<Rightarrow> outcome \<times> ctx" where
  "handle CmdStart = start"
| "handle CmdHelp = help_command"
| "handle CmdKomak = help_command"
| "handle CmdRules = rules"
| "handle CmdWarn = warn"
| "handle CmdWarns = warn_info"
| "handle CmdMute = mute"
| "handle CmdUnmute = unmute"
| "handle CmdLock = lock_chat"
| "handle CmdUnlock = unlock_chat"
| "handle CmdBan = ban"
| "handle CmdResetwarns = reset_warns"
| "handle CmdPin = pin"
| "handle CmdStats = stats"
| "handle NewChatMembers = welcome_members"
| "handle LinkMessage = block_links"
| "handle MyChatMember = track_admin"

section \<open>Auxiliary notions of the proofs\<close>

text \<open>The count the store holds for a chat key and a user key, 0 when either is
  missing.\<close>

definition count_of :: "chats \<Rightarrow> string \<Rightarrow> string \<Rightarrow> int" where
  "count_of dt c u = dict_get u 0 (dict_get c [] dt)"

text \<open>A Python \<^verbatim>\<open>dict\<close> holds each key once: the representation invariant of the
  association lists, for the outer map and for every chat's map.\<close>

definition dict_ok :: "chats \<Rightarrow> bool" where
  "dict_ok dt = (distinct (map fst dt) \<and> list_all (\<lambda>(c, us). distinct (map fst us)) dt)"

text \<open>The data model's bound: every stored count is at least 0.\<close>

definition counts_nonneg :: "chats \<Rightarrow> bool" where
  "counts_nonneg dt = list_all (\<lambda>(c, us). list_all (\<lambda>(u, n). 0 \<le> n) us) dt"

text \<open>The file format in the specification's words: a JSON object mapping chat-id
  strings to objects mapping user-id strings to integers (\<open>is_store_shape\<close>), and to
  non-negative integers (\<open>is_store_doc\<close>).\<close>

fun is_int :: "json \<Rightarrow> bool" where
  "is_int (JInt n) = True"
| "is_int _ = False"

fun is_count :: "json \<Rightarrow> bool" where
  "is_count (JInt n) = (0 \<le> n)"
| "is_count _ = False"

fun is_object_of :: "(json \<Rightarrow> bool) \<Rightarrow> json \<Rightarrow> bool" where
  "is_object_of P (JObj ps) = list_all (\<lambda>(k, v). P v) ps"
| "is_object_of P _ = False"

definition is_store_shape :: "json \<Rightarrow> bool" where
  "is_store_shape j = is_object_of (is_object_of is_int) j"

definition is_store_doc :: "json \<Rightarrow> bool" where
  "is_store_doc j = is_object_of (is_object_of is_count) j"

text \<open>The members \<^verbatim>\<open>_save\<close> writes, for one chat's map and for the whole map.\<close>

definition ser_users :: "counts \<Rightarrow> (string \<times> json) list" where
  "ser_users us = map (\<lambda>(u, n). (u, JInt n)) us"

definition ser_chats :: "chats \<Rightarrow> (string \<times> json) list" where
  "ser_chats dt = map (\<lambda>(chat, users). (chat, JObj (ser_users users))) dt"

text \<open>Both invariants together, and their part for one chat's map.\<close>

definition store_inv :: "chats \<Rightarrow> bool" where
  "store_inv dt = (dict_ok dt \<and> counts_nonneg dt)"

definition users_inv :: "counts \<Rightarrow> bool" where
  "users_inv us = (distinct (map fst us) \<and> list_all (\<lambda>(u, n). 0 \<le> n) us)"

text \<open>An update \<open>u\<close> that passes the guards of the reply-targeted, admin-gated handlers in
  the context \<open>c\<close>: it carries the message \<open>m\<close>, which replies to a message sent by \<open>t\<close>,
  in the chat \<open>chat_id\<close>, and the platform lists the invoking user among the chat's
  administrators.\<close>

definition targets :: "update \<Rightarrow> ctx \<Rightarrow> int \<Rightarrow> message \<Rightarrow> user \<Rightarrow> bool" where
  "targets u c chat_id m t =
     (message u = Some m
      \<and> (case reply_to_message m of None \<Rightarrow> False | Some r \<Rightarrow> from_user r = Some t)
      \<and> effective_chat u = Some chat_id
      \<and> is_admin (effective_user u) (dict_get chat_id [] (chat_admins c)))"

text \<open>The count the store of a context holds, as \<open>get\<close> reads it.\<close>

definition stored_count :: "ctx \<Rightarrow> int \<Rightarrow> int \<Rightarrow> int" where
  "stored_count c chat_id uid = fst (get chat_id uid (warnings c, disk c))"

text \<open>The admin-gated commands, each with the refusal it sends to an invoker who is no
  administrator; \<open>None\<close> for the handlers that check no administrator rights.\<close>

fun refusal :: "handler \<Rightarrow> reply_msg option" where
  "refusal CmdWarn = Some WarnAdminOnly"
| "refusal CmdMute = Some MuteAdminOnly"
| "refusal CmdUnmute = Some UnmuteAdminOnly"
| "refusal CmdBan = Some BanAdminOnly"
| "refusal CmdLock = Some LockAdminOnly"
| "refusal CmdUnlock = Some UnlockAdminOnly"
| "refusal CmdResetwarns = Some ResetAdminOnly"
| "refusal CmdPin = Some PinAdminOnly"
| "refusal _ = None"

text \<open>The guards that precede the check of the administrators in the reply-targeted
  handlers: a message that is a reply (\<open>/pin\<close>), and a reply to a message that has a
  sender (the other reply-targeted commands).\<close>

definition is_reply :: "update \<Rightarrow> bool" where
  "is_reply u = (case message u of None \<Rightarrow> False | Some m \<Rightarrow> reply_to_message m \<noteq> None)"

definition has_target :: "update \<Rightarrow> bool" where
  "has_target u =
     (case message u of
        None \<Rightarrow> False
      | Some m \<Rightarrow> (case reply_to_message m of None \<Rightarrow> False | Some r \<Rightarrow> from_user r \<noteq> None))"

text \<open>What a refused command must leave alone: the store, its file and the moderation
  calls made so far.\<close>

definition unchanged :: "ctx \<Rightarrow> ctx \<Rightarrow> bool" where
  "unchanged c c' = (warnings c' = warnings c \<and> disk c' = disk c
     \<and> filter is_moderation (calls c') = filter is_moderation (calls c))"

text \<open>A handler that neither reads nor writes the \<open>admin_ids\<close> entry: run with another
  value of the entry, it gives the same outcome and the same context but for that
  value.\<close>

definition ignores_admin_ids :: "(update \<Rightarrow> ctx \<Rightarrow> outcome \<times> ctx) \<Rightarrow> bool" where
  "ignores_admin_ids f =
     (\<forall>u c a. f u (c\<lparr>admin_ids := a\<rparr>) = (fst (f u c), (snd (f u c))\<lparr>admin_ids := a\<rparr>))"

section \<open>Facts about the string functions\<close>

lemma isdigit_digit_char: "n < 10 \<Longrightarrow> isdigit (digit_char n)"
  by (simp add: isdigit_def digit_char_def)

lemma digit_val_digit_char: "n < 10 \<Longrightarrow> digit_val (digit_char n) = n"
  by (simp add: digit_val_def digit_char_def)

lemma parse_digits_all:
  "\<forall>c \<in> set cs. isdigit c \<Longrightarrow>
   parse_digits acc cs = Some (foldl (\<lambda>a c. 10 * a + digit_val c) acc cs)"
  by (induction cs arbitrary: acc) auto

lemma str_nat_digits: "\<forall>c \<in> set (str_nat n). isdigit c"
  by (induction n rule: str_nat.induct) (subst str_nat.simps, auto simp: isdigit_digit_char)

lemma str_nat_nonempty: "str_nat n \<noteq> []"
  by (subst str_nat.simps) simp

lemma foldl_str_nat: "foldl (\<lambda>a c. 10 * a + digit_val c) 0 (str_nat n) = n"
  by (induction n rule: str_nat.induct) (subst str_nat.simps, auto simp: digit_val_digit_char)

lemma str_nat_ends: "isdigit (hd (str_nat n)) \<and> isdigit (last (str_nat n))"
  using str_nat_digits [of n] str_nat_nonempty [of n] by (meson hd_in_set last_in_set)

text \<open>\<^verbatim>\<open>str\<close> is injective on the integers: the digits determine the number, and only a
  negative number starts with the minus sign.\<close>

lemma str_nat_inj: "str_nat m = str_nat n \<Longrightarrow> m = n"
  by (metis foldl_str_nat)

lemma str_nat_no_minus: "str_nat n \<noteq> CHR ''-'' # cs"
proof
  assume "str_nat n = CHR ''-'' # cs"
  then have "isdigit (CHR ''-'')"
    using str_nat_ends [of n] by simp
  then show False
    by (simp add: isdigit_def)
qed

lemma str_int_inj: "str_int i = str_int j \<longleftrightarrow> i = j"
proof
  assume e: "str_int i = str_int j"
  show "i = j"
  proof (cases "i < 0")
    case True
    note i = this
    show ?thesis
    proof (cases "j < 0")
      case True
      then have "nat (- i) = nat (- j)"
        using e i by (simp add: str_int_def str_nat_inj)
      then show ?thesis
        using i True by simp
    next
      case False
      then show ?thesis
        using e i str_nat_no_minus [of "nat j" "str_nat (nat (- i))"] by (simp add: str_int_def)
    qed
  next
    case False
    note i = this
    show ?thesis
    proof (cases "j < 0")
      case True
      then show ?thesis
        using e i str_nat_no_minus [of "nat i" "str_nat (nat (- j))"] by (simp add: str_int_def)
    next
      case False
      then have "nat i = nat j"
        using e i by (simp add: str_int_def str_nat_inj)
      then show ?thesis
        using i False by simp
    qed
  qed
qed simp

text \<open>\<^verbatim>\<open>int\<close> reads back what \<^verbatim>\<open>str\<close> wrote, for the integers of at most 4300 digits.\<close>

lemma parse_nat_str_nat:
  assumes "int (length (str_nat n)) \<le> max_str_digits"
  shows "parse_nat (str_nat n) = Some n"
proof -
  obtain c cs where e: "str_nat n = c # cs"
    using str_nat_nonempty [of n] by (cases "str_nat n") auto
  have d: "\<forall>x \<in> set (c # cs). isdigit x"
    using str_nat_digits [of n] e by simp
  then have f: "filter isdigit (c # cs) = c # cs"
    by (simp only: filter_id_conv)
  have "foldl (\<lambda>a c. 10 * a + digit_val c) 0 (c # cs) = n"
    using foldl_str_nat [of n] e by simp
  then have "foldl (\<lambda>a c. 10 * a + digit_val c) (digit_val c) cs = n"
    by simp
  moreover have "int (length (filter isdigit (c # cs))) \<le> max_str_digits"
    using assms e f by simp
  ultimately show ?thesis
    using d e by (simp add: parse_nat_def parse_digits_all del: filter.simps)
qed

lemma isdigit_not_int_space: "isdigit c \<Longrightarrow> \<not> int_space c"
  by (auto simp: isdigit_def int_space_def Let_def)

lemma int_strip_id:
  assumes "s \<noteq> []" "\<not> int_space (hd s)" "\<not> int_space (last s)"
  shows "int_strip s = s"
proof -
  have "dropWhile int_space s = s"
    using assms by (simp add: dropWhile_eq_self_iff)
  moreover have "dropWhile int_space (rev s) = rev s"
    using assms by (simp add: dropWhile_eq_self_iff hd_rev)
  ultimately show ?thesis
    by (simp add: int_strip_def)
qed

lemma int_strip_str_int: "int_strip (str_int i) = str_int i"
proof (rule int_strip_id)
  show "str_int i \<noteq> []"
    by (simp add: str_int_def str_nat_nonempty)
  show "\<not> int_space (hd (str_int i))"
  proof (cases "i < 0")
    case True
    then show ?thesis by (simp add: str_int_def int_space_def)
  next
    case False
    then show ?thesis
      using str_nat_ends [of "nat i"] by (simp add: str_int_def isdigit_not_int_space)
  qed
  show "\<not> int_space (last (str_int i))"
    using str_nat_ends [of "nat i"] str_nat_ends [of "nat (- i)"]
    by (auto simp: str_int_def isdigit_not_int_space str_nat_nonempty)
qed

lemma parse_int_str_int:
  assumes "int (length (str_nat (nat \<bar>i\<bar>))) \<le> max_str_digits"
  shows "parse_int (str_int i) = Some i"
proof (cases "i < 0")
  case True
  then have "parse_nat (str_nat (nat (- i))) = Some (nat (- i))"
    using assms by (intro parse_nat_str_nat) simp
  then show ?thesis
    using True int_strip_str_int [of i] by (simp add: parse_int_def str_int_def)
next
  case False
  obtain c cs where e: "str_nat (nat i) = c # cs"
    using str_nat_nonempty [of "nat i"] by (cases "str_nat (nat i)") auto
  have "isdigit c"
    using str_nat_ends [of "nat i"] e by simp
  then have "c \<noteq> CHR ''-''" "c \<noteq> CHR ''+''"
    by (auto simp: isdigit_def)
  moreover have "parse_nat (str_nat (nat i)) = Some (nat i)"
    using assms False by (intro parse_nat_str_nat) simp
  ultimately show ?thesis
    using False int_strip_str_int [of i] e by (simp add: parse_int_def str_int_def)
qed

section \<open>The warning store: counting\<close>


lemma fst_dd_getitem: "fst (dd_getitem k dflt d) = dict_get k dflt d"
  by (simp add: dd_getitem_def dict_get_def split: option.splits)

lemma map_of_dd_getitem:
  "map_of (snd (dd_getitem k dflt d)) = (map_of d)(k \<mapsto> dict_get k dflt d)"
  by (auto simp: dd_getitem_def dict_get_def map_of_append fun_eq_iff map_add_def split: option.splits)

lemma dict_get_update:
  "dict_get k' dflt (AList.update k v d) = (if k' = k then v else dict_get k' dflt d)"
  by (simp add: dict_get_def update_conv')

lemma dict_get_delete:
  "dict_get k' dflt (AList.delete k d) = (if k' = k then dflt else dict_get k' dflt d)"
  by (simp add: dict_get_def delete_conv')

lemma dict_get_dd_getitem:
  "dict_get k' dflt' (snd (dd_getitem k dflt d)) =
     (if k' = k then dict_get k dflt d else dict_get k' dflt' d)"
  unfolding dict_get_def [of k' dflt'] map_of_dd_getitem by (simp add: dict_get_def)

lemma fst_getitem2: "fst (getitem2 c u dt) = count_of dt c u"
  by (simp add: getitem2_def count_of_def split_beta fst_dd_getitem)

lemma count_of_getitem2: "count_of (snd (getitem2 c u dt)) c' u' = count_of dt c' u'"
  by (simp add: getitem2_def count_of_def split_beta fst_dd_getitem dict_get_update
      dict_get_dd_getitem)

lemma count_of_setitem2:
  "count_of (setitem2 c u v dt) c' u' = (if c' = c \<and> u' = u then v else count_of dt c' u')"
  by (simp add: setitem2_def count_of_def split_beta fst_dd_getitem dict_get_update
      dict_get_dd_getitem)

lemma fst_get: "fst (get c u (s, d)) = count_of (data s) (str_int c) (str_int u)"
  by (simp add: get_def count_of_def)

lemma snd_get: "snd (get c u st) = st"
  by (cases st) (simp add: get_def)

lemma snd_get_all: "snd (get_all c st) = st"
  by (cases st) (simp add: get_all_def)

lemma fst_increment:
  "fst (increment c u (s, d)) = count_of (data s) (str_int c) (str_int u) + 1"
  by (simp add: increment_def Let_def split_beta fst_getitem2 count_of_setitem2)

lemma data_increment:
  "count_of (data (fst (snd (increment c u (s, d))))) c' u' =
     (if c' = str_int c \<and> u' = str_int u then count_of (data s) c' u' + 1
      else count_of (data s) c' u')"
  by (simp add: increment_def Let_def split_beta fst_getitem2 count_of_setitem2 count_of_getitem2)

lemma data_reset:
  "count_of (data (fst (reset c u (s, d)))) c' u' =
     (if c' = str_int c \<and> u' = str_int u then 0 else count_of (data s) c' u')"
proof (cases "str_int u \<in> set (map fst (dict_get (str_int c) [] (data s)))")
  case True
  then show ?thesis
    by (simp add: reset_def Let_def split_beta count_of_def dict_get_update dict_get_delete
        dict_get_dd_getitem fst_dd_getitem)
next
  case False
  then have "map_of (dict_get (str_int c) [] (data s)) (str_int u) = None"
    by (simp add: map_of_eq_None_iff)
  then have "count_of (data s) (str_int c) (str_int u) = 0"
    by (simp add: count_of_def dict_get_def [of "str_int u"])
  then show ?thesis
    using False by (auto simp: reset_def Let_def)
qed

lemma fst_get_fst:
  "fst (get c u st) = count_of (data (fst st)) (str_int c) (str_int u)"
  by (cases st) (simp add: fst_get)

lemma count_apply_op:
  "fst (get c u (apply_op x st)) =
     (if x = Increment c u then fst (get c u st) + 1
      else if x = Reset c u then 0
      else fst (get c u st))"
proof (cases st)
  case (Pair s d)
  show ?thesis
  proof (cases x)
    case (Increment c' u')
    then show ?thesis
      using Pair by (simp add: fst_get_fst data_increment str_int_inj)
  next
    case (Reset c' u')
    then show ?thesis
      using Pair by (simp add: fst_get_fst data_reset str_int_inj)
  next
    case (Get c' u')
    then show ?thesis by (simp add: snd_get)
  next
    case (GetAll c')
    then show ?thesis by (simp add: snd_get_all)
  qed
qed

lemma increments_since_reset_snoc:
  "increments_since_reset c u (ops @ [x]) =
     (if x = Increment c u then increments_since_reset c u ops + 1
      else if x = Reset c u then 0
      else increments_since_reset c u ops)"
proof (cases "x = Reset c u")
  case True
  then show ?thesis
    by (simp add: increments_since_reset_def since_last_reset_def)
next
  case False
  then show ?thesis
    by (cases "x = Increment c u") (simp_all add: increments_since_reset_def since_last_reset_def)
qed

lemma run_ops_snoc: "run_ops (ops @ [x]) st = apply_op x (run_ops ops st)"
  by (simp add: run_ops_def)

lemma count_run_ops:
  "fst (get c u st) = 0 \<Longrightarrow> fst (get c u (run_ops ops st)) = increments_since_reset c u ops"
proof (induction ops rule: rev_induct)
  case Nil
  then show ?case
    by (simp add: run_ops_def increments_since_reset_def since_last_reset_def)
next
  case (snoc x xs)
  then show ?case
    by (simp only: run_ops_snoc count_apply_op increments_since_reset_snoc)
qed

lemma new_store_absent: "map_of d p = None \<Longrightarrow> new_store p d = Inr \<lparr>path = p, data = []\<rparr>"
  by (simp add: new_store_def load_def)

text \<open>
  Claim C1. Take a store constructed empty and any sequence of calls of its methods, on
  any chats and users. Then \<open>get(c, u)\<close> returns the number of \<open>increment(c, u)\<close>
  calls made since the most recent \<open>reset(c, u)\<close>, or since the construction when there
  was none. In every state of the store, \<open>increment(c, u)\<close> returns the count that
  \<open>get(c, u)\<close> gave before plus one (a missing entry counting as 0), and \<open>get\<close> then
  returns that new count; and \<open>get(c, u)\<close> right after \<open>reset(c, u)\<close> returns 0.
\<close>

theorem get_counts_increments_since_reset:
  assumes "new_store p d = Inr s" and "data s = []"
  shows "fst (get c u (run_ops ops (s, d))) = increments_since_reset c u ops
    \<and> (\<forall>st. fst (increment c u st) = fst (get c u st) + 1
            \<and> fst (get c u (snd (increment c u st))) = fst (increment c u st))
    \<and> (\<forall>st. fst (get c u (reset c u st)) = 0)"
proof -
  have "fst (get c u (s, d)) = 0"
    using assms(2) by (simp add: get_def dict_get_def)
  then have a: "fst (get c u (run_ops ops (s, d))) = increments_since_reset c u ops"
    by (rule count_run_ops)
  have b: "fst (increment c u st) = fst (get c u st) + 1" for st
    by (cases st) (simp add: fst_increment fst_get)
  have c: "fst (get c u (snd (increment c u st))) = fst (get c u st) + 1" for st
    using count_apply_op [of c u "Increment c u" st] by simp
  have r: "fst (get c u (reset c u st)) = 0" for st
    using count_apply_op [of c u "Reset c u" st] by simp
  show ?thesis
    using a b c r by simp
qed

theorem get_counts_increments_since_reset_witness:
  "new_store ''w.json'' [] = Inr \<lparr>path = ''w.json'', data = []\<rparr>
   \<and> fst (get 5 7 (run_ops [Increment 5 7, Increment 5 8, Reset 5 7, Increment 5 7, Get 5 7,
          Increment 5 7] (\<lparr>path = ''w.json'', data = []\<rparr>, []))) = 2"
proof -
  have n: "new_store ''w.json'' [] = Inr \<lparr>path = ''w.json'', data = []\<rparr>"
    by (simp add: new_store_def load_def)
  have "increments_since_reset 5 7 [Increment 5 7, Increment 5 8, Reset 5 7, Increment 5 7,
      Get 5 7, Increment 5 7] = 2"
    by (simp add: increments_since_reset_def since_last_reset_def)
  then show ?thesis
    using n get_counts_increments_since_reset [OF n, of 5 7 "[Increment 5 7, Increment 5 8,
      Reset 5 7, Increment 5 7, Get 5 7, Increment 5 7]"]
    by simp
qed

section \<open>The warning store: persistence round trip\<close>

lemma foldl_update_fresh:
  "distinct (map fst (us0 @ us)) \<Longrightarrow>
   foldl (\<lambda>d (k, v). AList.update k v d) us0 us = us0 @ us"
proof (induction us arbitrary: us0)
  case Nil
  then show ?case by simp
next
  case (Cons x xs)
  obtain k v where x: "x = (k, v)" by (cases x)
  have "k \<notin> fst ` set us0"
    using Cons.prems x by auto
  then have u: "AList.update k v us0 = us0 @ [(k, v)]"
    by (induction us0) auto
  have "distinct (map fst ((us0 @ [(k, v)]) @ xs))"
    using Cons.prems x by simp
  then have "foldl (\<lambda>d (k, v). AList.update k v d) (us0 @ [(k, v)]) xs = (us0 @ [(k, v)]) @ xs"
    by (rule Cons.IH)
  then show ?case
    using x u by simp
qed

lemma dict_of_members_distinct: "distinct (map fst ps) \<Longrightarrow> dict_of_members ps = ps"
  using foldl_update_fresh [of "[]" ps] by (simp add: dict_of_members_def)

lemma map_fst_ser_users: "map fst (ser_users us) = map fst us"
  by (simp add: ser_users_def split_beta)

lemma update_append_present:
  "k \<notin> fst ` set xs \<Longrightarrow> AList.update k v (xs @ (k, w) # ys) = xs @ (k, v) # ys"
  by (induction xs) auto

lemma setitem2_absent:
  "c \<notin> fst ` set dt \<Longrightarrow> setitem2 c u n dt = dt @ [(c, [(u, n)])]"
proof -
  assume c: "c \<notin> fst ` set dt"
  then have "map_of dt c = None"
    by (simp add: map_of_eq_None_iff)
  then show ?thesis
    using update_append_present [OF c, of "[(u, n)]" "[]" "[]"]
    by (simp add: setitem2_def dd_getitem_def)
qed

lemma setitem2_last:
  "c \<notin> fst ` set dt \<Longrightarrow> u \<notin> fst ` set us \<Longrightarrow>
   setitem2 c u n (dt @ [(c, us)]) = dt @ [(c, us @ [(u, n)])]"
proof -
  assume c: "c \<notin> fst ` set dt" and u: "u \<notin> fst ` set us"
  have "map_of dt c = None"
    using c by (simp add: map_of_eq_None_iff)
  then have m: "map_of (dt @ [(c, us)]) c = Some us"
    by (simp add: map_add_def)
  have "AList.update u n us = us @ [(u, n)]"
    using u by (induction us) auto
  then show ?thesis
    using m c by (simp add: setitem2_def dd_getitem_def update_append_present)
qed

lemma load_users_last:
  "c \<notin> fst ` set dt \<Longrightarrow> distinct (map fst (us0 @ us)) \<Longrightarrow>
   load_users c (ser_users us) (dt @ [(c, us0)]) = Inr (dt @ [(c, us0 @ us)])"
proof (induction us arbitrary: us0)
  case Nil
  then show ?case by (simp add: ser_users_def)
next
  case (Cons x xs)
  obtain u n where x: "x = (u, n)" by (cases x)
  have "u \<notin> fst ` set us0"
    using Cons.prems(2) x by auto
  then have s: "setitem2 c u n (dt @ [(c, us0)]) = dt @ [(c, us0 @ [(u, n)])]"
    using Cons.prems(1) by (simp add: setitem2_last)
  have "distinct (map fst ((us0 @ [(u, n)]) @ xs))"
    using Cons.prems(2) x by simp
  then have "load_users c (ser_users xs) (dt @ [(c, us0 @ [(u, n)])]) =
      Inr (dt @ [(c, (us0 @ [(u, n)]) @ xs)])"
    using Cons.prems(1) by (intro Cons.IH)
  then show ?case
    using x s by (simp add: ser_users_def)
qed

lemma load_users_fresh:
  assumes "c \<notin> fst ` set dt" and "distinct (map fst us)"
  shows "load_users c (ser_users us) dt = Inr (if us = [] then dt else dt @ [(c, us)])"
proof (cases us)
  case Nil
  then show ?thesis by (simp add: ser_users_def)
next
  case (Cons x xs)
  obtain u n where x: "x = (u, n)" by (cases x)
  have "distinct (map fst ([(u, n)] @ xs))"
    using assms(2) Cons x by simp
  then have "load_users c (ser_users xs) (dt @ [(c, [(u, n)])]) = Inr (dt @ [(c, [(u, n)] @ xs)])"
    using assms(1) by (intro load_users_last)
  then show ?thesis
    using Cons x assms(1) by (simp add: ser_users_def setitem2_absent)
qed

lemma serializable_eq: "serializable dt = JObj (ser_chats dt)"
  by (simp add: serializable_def ser_chats_def ser_users_def)

lemma map_fst_ser_chats: "map fst (ser_chats dt) = map fst dt"
  by (simp add: ser_chats_def split_beta)

lemma load_chats_ser:
  "dict_ok dt \<Longrightarrow> fst ` set dt \<inter> fst ` set dt0 = {} \<Longrightarrow>
   load_chats (ser_chats dt) dt0 = Inr (dt0 @ filter (\<lambda>(c, us). us \<noteq> []) dt)"
proof (induction dt arbitrary: dt0)
  case Nil
  then show ?case by (simp add: ser_chats_def)
next
  case (Cons x xs)
  obtain c us where x: "x = (c, us)" by (cases x)
  have ok: "dict_ok xs" and dus: "distinct (map fst us)" and cx: "c \<notin> fst ` set xs"
    using Cons.prems(1) x by (auto simp: dict_ok_def)
  have c0: "c \<notin> fst ` set dt0"
    using Cons.prems(2) x by auto
  have lu: "load_users c (dict_of_members (ser_users us)) dt0 =
      Inr (if us = [] then dt0 else dt0 @ [(c, us)])"
    using c0 dus by (simp add: dict_of_members_distinct map_fst_ser_users load_users_fresh)
  have disj: "fst ` set xs \<inter> fst ` set (if us = [] then dt0 else dt0 @ [(c, us)]) = {}"
    using Cons.prems(2) cx x by auto
  have "load_chats (ser_chats xs) (if us = [] then dt0 else dt0 @ [(c, us)]) =
      Inr ((if us = [] then dt0 else dt0 @ [(c, us)]) @ filter (\<lambda>(c, us). us \<noteq> []) xs)"
    using ok disj by (rule Cons.IH)
  then show ?case
    using x lu by (simp add: ser_chats_def)
qed

lemma dict_get_filter_nonempty:
  "distinct (map fst dt) \<Longrightarrow>
   dict_get c [] (filter (\<lambda>(c, us). us \<noteq> []) dt) = dict_get c [] dt"
proof (induction dt)
  case Nil
  then show ?case by simp
next
  case (Cons x xs)
  obtain k v where x: "x = (k, v)" by (cases x)
  show ?case
  proof (cases "k = c \<and> v = []")
    case True
    then have "c \<notin> fst ` set (filter (\<lambda>(c, us). us \<noteq> []) xs)"
      using Cons.prems x by auto
    then have "map_of (filter (\<lambda>(c, us). us \<noteq> []) xs) c = None"
      by (simp add: map_of_eq_None_iff)
    then show ?thesis
      using True x by (simp add: dict_get_def)
  next
    case False
    then show ?thesis
      using Cons x by (auto simp: dict_get_def)
  qed
qed

lemma new_store_save:
  assumes "dict_ok (data s)"
  shows "new_store (path s) (save s d) =
     Inr \<lparr>path = path s, data = filter (\<lambda>(c, us). us \<noteq> []) (data s)\<rparr>"
proof -
  have "dict_of_members (ser_chats (data s)) = ser_chats (data s)"
    using assms by (simp add: dict_of_members_distinct map_fst_ser_chats dict_ok_def)
  moreover have "load_chats (ser_chats (data s)) [] = Inr ([] @ filter (\<lambda>(c, us). us \<noteq> []) (data s))"
    using assms by (intro load_chats_ser) simp_all
  ultimately show ?thesis
    by (simp add: new_store_def load_def save_def serializable_eq update_conv')
qed

lemma is_store_shape_serializable: "is_store_shape (serializable dt)"
  by (simp add: is_store_shape_def serializable_def list_all_iff split_beta)

lemma is_store_doc_serializable: "counts_nonneg dt \<Longrightarrow> is_store_doc (serializable dt)"
  by (auto simp: is_store_doc_def counts_nonneg_def serializable_def list_all_iff split_beta)

text \<open>
  Claim C3. For every state of the store (the maps holding each key once, as every
  \<^verbatim>\<open>dict\<close> does), writing it with \<open>_save\<close> and constructing a fresh store from the
  written file succeeds, and \<open>get_all\<close> of the fresh store equals \<open>get_all\<close> of the
  original for every chat id. The written file is a JSON object mapping chat keys to
  objects mapping user keys to integers, and to non-negative integers when the stored
  counts are non-negative (which \<open>store_inv_run_ops\<close> below shows of every state reached
  from an empty store).
\<close>

theorem save_then_load_roundtrip:
  assumes "dict_ok (data s)"
  shows "(\<exists>s'. new_store (path s) (save s d) = Inr s'
            \<and> (\<forall>c. fst (get_all c (s', save s d)) = fst (get_all c (s, save s d))))
    \<and> (\<exists>doc. map_of (save s d) (path s) = Some (Doc doc) \<and> is_store_shape doc
            \<and> (counts_nonneg (data s) \<longrightarrow> is_store_doc doc))"
proof -
  have "fst (get_all c (\<lparr>path = path s, data = filter (\<lambda>(c, us). us \<noteq> []) (data s)\<rparr>, save s d))
      = fst (get_all c (s, save s d))" for c
    using assms by (simp add: get_all_def dict_get_filter_nonempty dict_ok_def)
  then have a: "\<exists>s'. new_store (path s) (save s d) = Inr s'
      \<and> (\<forall>c. fst (get_all c (s', save s d)) = fst (get_all c (s, save s d)))"
    using new_store_save [OF assms, of d] by simp
  have b: "map_of (save s d) (path s) = Some (Doc (serializable (data s)))"
    by (simp add: save_def update_conv')
  show ?thesis
    using a b is_store_shape_serializable is_store_doc_serializable by simp
qed

lemma distinct_dd_getitem:
  "distinct (map fst d) \<Longrightarrow> distinct (map fst (snd (dd_getitem k dflt d)))"
  by (auto simp: dd_getitem_def map_of_eq_None_iff split: option.splits)

lemma list_all_dd_getitem:
  "list_all P d \<Longrightarrow> P (k, dflt) \<Longrightarrow> list_all P (snd (dd_getitem k dflt d))"
  by (auto simp: dd_getitem_def split: option.splits)

lemma list_all_update:
  "list_all P d \<Longrightarrow> P (k, v) \<Longrightarrow> list_all P (AList.update k v d)"
  by (induction d) auto

lemma list_all_delete: "list_all P d \<Longrightarrow> list_all P (AList.delete k d)"
  by (induction d) auto

lemma fetched_dd_getitem:
  "list_all (\<lambda>(k, v). Q v) d \<Longrightarrow> Q dflt \<Longrightarrow> Q (fst (dd_getitem k dflt d))"
  by (auto simp: dd_getitem_def list_all_iff split: option.splits dest!: map_of_SomeD)

lemma store_inv_eq:
  "store_inv dt = (distinct (map fst dt) \<and> list_all (\<lambda>(c, us). users_inv us) dt)"
  by (auto simp: store_inv_def dict_ok_def counts_nonneg_def users_inv_def list_all_iff)

lemma users_inv_update: "users_inv us \<Longrightarrow> 0 \<le> n \<Longrightarrow> users_inv (AList.update u n us)"
  by (simp add: users_inv_def distinct_update list_all_update)

lemma users_inv_delete: "users_inv us \<Longrightarrow> users_inv (AList.delete u us)"
  by (simp add: users_inv_def distinct_delete list_all_delete)

lemma users_inv_dd_getitem: "users_inv us \<Longrightarrow> users_inv (snd (dd_getitem u 0 us))"
  by (simp add: users_inv_def distinct_dd_getitem list_all_dd_getitem)

lemma count_dd_getitem: "users_inv us \<Longrightarrow> 0 \<le> fst (dd_getitem u 0 us)"
  using fetched_dd_getitem [of "\<lambda>n. 0 \<le> n" us 0 u] by (simp add: users_inv_def)

lemma users_dd_getitem:
  "store_inv dt \<Longrightarrow> users_inv (fst (dd_getitem c [] dt)) \<and> store_inv (snd (dd_getitem c [] dt))"
proof -
  assume a: "store_inv dt"
  have e: "users_inv []"
    by (simp add: users_inv_def)
  have la: "list_all (\<lambda>(c, us). users_inv us) dt" and di: "distinct (map fst dt)"
    using a by (simp_all add: store_inv_eq)
  have "users_inv (fst (dd_getitem c [] dt))"
    using la e by (rule fetched_dd_getitem)
  moreover have "list_all (\<lambda>(c, us). users_inv us) (snd (dd_getitem c [] dt))"
    using la e by (intro list_all_dd_getitem) simp_all
  ultimately show ?thesis
    using di by (simp add: store_inv_eq distinct_dd_getitem)
qed

lemma store_inv_update: "store_inv dt \<Longrightarrow> users_inv us \<Longrightarrow> store_inv (AList.update c us dt)"
  by (simp add: store_inv_eq distinct_update list_all_update)

lemma store_inv_setitem2: "store_inv dt \<Longrightarrow> 0 \<le> n \<Longrightarrow> store_inv (setitem2 c u n dt)"
  using users_dd_getitem [of dt c]
  by (simp add: setitem2_def split_beta store_inv_update users_inv_update)

lemma store_inv_getitem2:
  "store_inv dt \<Longrightarrow> 0 \<le> fst (getitem2 c u dt) \<and> store_inv (snd (getitem2 c u dt))"
  using users_dd_getitem [of dt c]
  by (simp add: getitem2_def split_beta store_inv_update users_inv_dd_getitem count_dd_getitem)

lemma store_inv_increment:
  "store_inv (data s) \<Longrightarrow> store_inv (data (fst (snd (increment c u (s, d)))))"
  using store_inv_getitem2 [of "data s" "str_int c" "str_int u"]
  by (simp add: increment_def Let_def split_beta store_inv_getitem2 store_inv_setitem2)

lemma store_inv_reset: "store_inv (data s) \<Longrightarrow> store_inv (data (fst (reset c u (s, d))))"
  using users_dd_getitem [of "data s" "str_int c"]
  by (simp add: reset_def Let_def split_beta store_inv_update users_inv_delete)

lemma store_inv_apply_op:
  "store_inv (data (fst st)) \<Longrightarrow> store_inv (data (fst (apply_op x st)))"
  by (cases st; cases x)
    (simp_all add: store_inv_increment store_inv_reset get_def get_all_def)

lemma store_inv_run_ops:
  "store_inv (data (fst st)) \<Longrightarrow> store_inv (data (fst (run_ops ops st)))"
  unfolding run_ops_def
  by (induction ops arbitrary: st) (simp_all add: store_inv_apply_op)

lemma store_inv_empty: "store_inv []"
  by (simp add: store_inv_def dict_ok_def counts_nonneg_def)

lemma str_int_examples:
  "str_int 5 = ''5''" "str_int 6 = ''6''" "str_int 7 = ''7''" "str_int 8 = ''8''"
  "str_int (- 100) = ''-100''" "str_int 42 = ''42''"
  by code_simp+

text \<open>The round trip at a store with two counts in one chat and a chat emptied by
  \<open>reset\<close>: the reloaded store has no entry for the emptied chat, and \<open>get_all\<close> gives
  the empty map for it on both sides.\<close>

theorem save_then_load_roundtrip_witness:
  "dict_ok [(''5'', [(''7'', 2), (''8'', 1)]), (''6'', [])]
   \<and> new_store ''w.json'' (save \<lparr>path = ''w.json'', data = [(''5'', [(''7'', 2), (''8'', 1)]), (''6'', [])]\<rparr> [])
       = Inr \<lparr>path = ''w.json'', data = [(''5'', [(''7'', 2), (''8'', 1)])]\<rparr>
   \<and> fst (get_all 6 (\<lparr>path = ''w.json'', data = [(''5'', [(''7'', 2), (''8'', 1)])]\<rparr>, [])) = []
   \<and> fst (get_all 6 (\<lparr>path = ''w.json'', data = [(''5'', [(''7'', 2), (''8'', 1)]), (''6'', [])]\<rparr>, [])) = []"
proof -
  have ok: "dict_ok (data \<lparr>path = ''w.json'', data = [(''5'', [(''7'', 2), (''8'', 1)]), (''6'', [])]\<rparr>)"
    by (simp add: dict_ok_def)
  have n: "new_store ''w.json'' (save \<lparr>path = ''w.json'', data = [(''5'', [(''7'', 2), (''8'', 1)]), (''6'', [])]\<rparr> [])
       = Inr \<lparr>path = ''w.json'', data = [(''5'', [(''7'', 2), (''8'', 1)])]\<rparr>"
    by (simp add: new_store_def load_def save_def serializable_def dict_of_members_def
        setitem2_def dd_getitem_def)
  have g: "fst (get_all 6 (\<lparr>path = ''w.json'', data = [(''5'', [(''7'', 2), (''8'', 1)])]\<rparr>, [])) = []"
    by (simp add: get_all_def dict_get_def str_int_examples)
  show ?thesis
    using ok n g save_then_load_roundtrip [OF ok, of "[]"]
    by (simp add: get_all_def dict_get_def str_int_examples)
qed

section \<open>The warning store: reads\<close>

text \<open>
  Claim C8. \<open>get\<close> and \<open>get_all\<close> return the store and the disk as they found them, their
  results do not depend on the disk, and a chat or user that has no entry reads as 0 or
  as the empty map (no entry is created: the state is returned unchanged).
\<close>

theorem get_and_get_all_are_pure_reads:
  "snd (get c u st) = st \<and> snd (get_all c st) = st
   \<and> (\<forall>d'. fst (get c u (fst st, d')) = fst (get c u st)
           \<and> fst (get_all c (fst st, d')) = fst (get_all c st))
   \<and> (str_int c \<notin> fst ` set (data (fst st)) \<longrightarrow> fst (get c u st) = 0 \<and> fst (get_all c st) = [])
   \<and> (str_int u \<notin> fst ` set (fst (get_all c st)) \<longrightarrow> fst (get c u st) = 0)"
proof (cases st)
  case (Pair s d)
  have a: "snd (get c u st) = st" "snd (get_all c st) = st"
    using Pair by (simp_all add: get_def get_all_def)
  have b: "fst (get c u (fst st, d')) = fst (get c u st)
      \<and> fst (get_all c (fst st, d')) = fst (get_all c st)" for d'
    using Pair by (simp add: get_def get_all_def)
  have c: "fst (get c u st) = 0 \<and> fst (get_all c st) = []"
    if "str_int c \<notin> fst ` set (data (fst st))"
  proof -
    have "map_of (data s) (str_int c) = None"
      using that Pair by (simp add: map_of_eq_None_iff)
    then show ?thesis
      using Pair by (simp add: get_def get_all_def dict_get_def)
  qed
  have d: "fst (get c u st) = 0" if "str_int u \<notin> fst ` set (fst (get_all c st))"
  proof -
    have "map_of (dict_get (str_int c) [] (data s)) (str_int u) = None"
      using that Pair by (simp add: map_of_eq_None_iff get_all_def)
    then show ?thesis
      using Pair by (simp add: get_def dict_get_def [of "str_int u"])
  qed
  show ?thesis
    using a b c d by blast
qed

theorem get_and_get_all_are_pure_reads_witness:
  "get 6 7 (\<lparr>path = ''w.json'', data = [(''5'', [(''7'', 2)])]\<rparr>, [])
     = (0, (\<lparr>path = ''w.json'', data = [(''5'', [(''7'', 2)])]\<rparr>, []))
   \<and> get_all 6 (\<lparr>path = ''w.json'', data = [(''5'', [(''7'', 2)])]\<rparr>, [])
     = ([], (\<lparr>path = ''w.json'', data = [(''5'', [(''7'', 2)])]\<rparr>, []))
   \<and> get 5 8 (\<lparr>path = ''w.json'', data = [(''5'', [(''7'', 2)])]\<rparr>, [])
     = (0, (\<lparr>path = ''w.json'', data = [(''5'', [(''7'', 2)])]\<rparr>, []))"
proof -
  have a: "str_int 6 \<notin> fst ` set (data (fst (\<lparr>path = ''w.json'', data = [(''5'', [(''7'', 2)])]\<rparr>, [] :: disk)))"
    by (simp add: str_int_examples)
  have b: "str_int 8 \<notin> fst ` set (fst (get_all 5 (\<lparr>path = ''w.json'', data = [(''5'', [(''7'', 2)])]\<rparr>, [] :: disk)))"
    by (simp add: str_int_examples get_all_def dict_get_def)
  show ?thesis
    using a b
      get_and_get_all_are_pure_reads [of 6 7 "(\<lparr>path = ''w.json'', data = [(''5'', [(''7'', 2)])]\<rparr>, [])"]
      get_and_get_all_are_pure_reads [of 5 8 "(\<lparr>path = ''w.json'', data = [(''5'', [(''7'', 2)])]\<rparr>, [])"]
    by (simp add: prod_eq_iff)
qed

section \<open>Configuration: errors, defaults and the clamp\<close>

lemma env_blank: "blank e key \<Longrightarrow> env e key dflt = dflt"
  by (simp add: env_def blank_def split: option.splits)

lemma env_set: "map_of e key = Some v \<Longrightarrow> strip v \<noteq> [] \<Longrightarrow> env e key dflt = Some v"
  by (simp add: env_def)

lemma env_default_Some: "\<exists>v. env e key (Some d) = Some v"
  by (simp add: env_def split: option.splits)

lemma env_not_blank: "\<not> blank e key \<Longrightarrow> \<exists>v. env e key dflt = Some v \<and> map_of e key = Some v \<and> v \<noteq> []"
  by (auto simp: env_def blank_def strip_def split: option.splits)

lemma from_env_token_blank: "blank e ''TELEGRAM_BOT_TOKEN'' \<Longrightarrow> from_env e = Inl RuntimeError"
  by (simp add: from_env_def env_blank)

lemma from_env_limit_bad:
  assumes "map_of e ''WARNINGS_LIMIT'' = Some s" "strip s \<noteq> []" "parse_int s = None"
  shows "from_env e = Inl RuntimeError"
proof (cases "blank e ''TELEGRAM_BOT_TOKEN''")
  case True
  then show ?thesis by (rule from_env_token_blank)
next
  case False
  then obtain t where "env e ''TELEGRAM_BOT_TOKEN'' None = Some t" "t \<noteq> []"
    using env_not_blank by blast
  then show ?thesis
    using assms by (simp add: from_env_def env_set int_of_str_def)
qed

lemma from_env_ok:
  assumes "\<not> blank e ''TELEGRAM_BOT_TOKEN''"
    and "env e ''WARNINGS_LIMIT'' (Some ''3'') = Some s" and "parse_int s = Some n"
  shows "\<exists>t sp links. map_of e ''TELEGRAM_BOT_TOKEN'' = Some t
     \<and> env e ''WARNINGS_STORAGE'' (Some ''./warnings.json'') = Some sp
     \<and> env e ''ADMIN_ONLY_LINKS'' (Some ''true'') = Some links
     \<and> from_env e = Inr \<lparr>bot_token = t, warnings_limit = max 1 n, storage_path = sp,
          admin_only_links = (lower links \<in> {''1'', ''true'', ''yes''})\<rparr>"
proof -
  obtain t where t: "env e ''TELEGRAM_BOT_TOKEN'' None = Some t" "t \<noteq> []"
      "map_of e ''TELEGRAM_BOT_TOKEN'' = Some t"
    using assms(1) env_not_blank by blast
  obtain sp where sp: "env e ''WARNINGS_STORAGE'' (Some ''./warnings.json'') = Some sp"
    using env_default_Some by blast
  obtain links where l: "env e ''ADMIN_ONLY_LINKS'' (Some ''true'') = Some links"
    using env_default_Some by blast
  show ?thesis
    using t sp l assms(2,3) by (simp add: from_env_def int_of_str_def)
qed

lemma strip_empty_iff: "strip s = [] \<longleftrightarrow> (\<forall>x \<in> set s. isspace x)"
proof
  assume e: "strip s = []"
  then have a: "\<forall>x \<in> set (dropWhile isspace s). isspace x"
    by (simp add: strip_def dropWhile_eq_Nil_conv)
  have "dropWhile isspace s = []"
  proof (rule ccontr)
    assume n: "dropWhile isspace s \<noteq> []"
    then have "\<not> isspace (hd (dropWhile isspace s))"
      by (rule hd_dropWhile)
    moreover have "hd (dropWhile isspace s) \<in> set (dropWhile isspace s)"
      using n by (rule hd_in_set)
    ultimately show False
      using a by blast
  qed
  then show "\<forall>x \<in> set s. isspace x"
    by (simp only: dropWhile_eq_Nil_conv)
next
  assume "\<forall>x \<in> set s. isspace x"
  then have d: "dropWhile isspace s = []"
    by (simp only: dropWhile_eq_Nil_conv)
  show "strip s = []"
    by (simp only: strip_def d dropWhile.simps rev.simps)
qed

lemma set_int_strip: "set (int_strip s) \<subseteq> set s"
proof
  fix x
  assume "x \<in> set (int_strip s)"
  then have "x \<in> set (dropWhile int_space (rev (dropWhile int_space s)))"
    by (simp add: int_strip_def)
  then have "x \<in> set (rev (dropWhile int_space s))"
    by (rule set_dropWhileD)
  then have "x \<in> set (dropWhile int_space s)"
    by simp
  then show "x \<in> set s"
    by (rule set_dropWhileD)
qed

lemma parse_nat_head: "parse_nat (c # cs) = Some n \<Longrightarrow> isdigit c"
  by (cases "isdigit c") (simp_all add: parse_nat_def)

lemma parse_int_head:
  assumes "parse_int s = Some n"
  shows "\<exists>c cs. int_strip s = c # cs \<and> (c = CHR ''-'' \<or> c = CHR ''+'' \<or> isdigit c)"
proof (cases "int_strip s")
  case Nil
  then show ?thesis
    using assms by (simp add: parse_int_def)
next
  case (Cons c cs)
  show ?thesis
  proof (cases "c = CHR ''-'' \<or> c = CHR ''+''")
    case True
    then show ?thesis
      using Cons by blast
  next
    case False
    then have "parse_nat (c # cs) \<noteq> None"
      using assms Cons by (auto simp: parse_int_def)
    then have "isdigit c"
      using parse_nat_head by blast
    then show ?thesis
      using Cons by blast
  qed
qed

lemma parse_int_not_blank:
  assumes "parse_int s = Some n"
  shows "strip s \<noteq> []"
proof -
  obtain c cs where c: "int_strip s = c # cs" "c = CHR ''-'' \<or> c = CHR ''+'' \<or> isdigit c"
    using parse_int_head [OF assms] by blast
  have "c \<in> set s"
    using c(1) set_int_strip [of s] by auto
  moreover have "\<not> isspace c"
    using c(2) by (auto simp: isspace_def isdigit_def Let_def)
  ultimately show ?thesis
    by (auto simp: strip_empty_iff)
qed

lemma env_delete_blank:
  assumes "map_of e k = Some s" and "strip s = []"
  shows "env e key dflt = env (AList.delete k e) key dflt"
  using assms by (cases "key = k") (simp_all add: env_def delete_conv')

text \<open>
  Claim C7 says that \<open>from_env\<close> fails whenever \<open>WARNINGS_LIMIT\<close> is set to a string
  that is no integer. With the token set and \<open>WARNINGS_LIMIT\<close> set to one space, which
  \<^verbatim>\<open>int\<close> rejects with \<^verbatim>\<open>ValueError\<close>, \<open>from_env\<close> returns settings with the default
  limit 3: \<open>_env\<close> has replaced the blank value by the default before \<^verbatim>\<open>int\<close> is called.
\<close>

theorem from_env_blank_limit_counterexample:
  "map_of [(''TELEGRAM_BOT_TOKEN'', ''123:abc''), (''WARNINGS_LIMIT'', '' '')] ''WARNINGS_LIMIT''
     = Some '' ''
   \<and> int_of_str '' '' = Inl ValueError
   \<and> from_env [(''TELEGRAM_BOT_TOKEN'', ''123:abc''), (''WARNINGS_LIMIT'', '' '')]
     = Inr \<lparr>bot_token = ''123:abc'', warnings_limit = 3, storage_path = ''./warnings.json'',
          admin_only_links = True\<rparr>"
  by code_simp

text \<open>
  Claim C7, amended. \<open>from_env\<close> raises \<^verbatim>\<open>RuntimeError\<close> when \<open>TELEGRAM_BOT_TOKEN\<close> is
  unset, empty or only white space, and when \<open>WARNINGS_LIMIT\<close> is set to a string that is
  not blank and that \<^verbatim>\<open>int\<close> rejects. In every other environment it returns settings
  carrying the token, where a \<open>WARNINGS_LIMIT\<close> that is unset or blank gives the limit 3,
  a \<open>WARNINGS_STORAGE\<close> that is unset or blank gives \<^verbatim>\<open>./warnings.json\<close>, and an
  \<open>ADMIN_ONLY_LINKS\<close> that is unset or blank gives true.
\<close>

theorem from_env_errors_and_defaults:
  "(blank e ''TELEGRAM_BOT_TOKEN'' \<longrightarrow> from_env e = Inl RuntimeError)
   \<and> (\<forall>s. map_of e ''WARNINGS_LIMIT'' = Some s \<and> strip s \<noteq> [] \<and> int_of_str s = Inl ValueError
          \<longrightarrow> from_env e = Inl RuntimeError)
   \<and> (\<not> blank e ''TELEGRAM_BOT_TOKEN''
        \<and> \<not> (\<exists>s. map_of e ''WARNINGS_LIMIT'' = Some s \<and> strip s \<noteq> []
                  \<and> int_of_str s = Inl ValueError)
      \<longrightarrow> (\<exists>st. from_env e = Inr st
            \<and> map_of e ''TELEGRAM_BOT_TOKEN'' = Some (bot_token st)
            \<and> (blank e ''WARNINGS_LIMIT'' \<longrightarrow> warnings_limit st = 3)
            \<and> (blank e ''WARNINGS_STORAGE'' \<longrightarrow> storage_path st = ''./warnings.json'')
            \<and> (blank e ''ADMIN_ONLY_LINKS'' \<longrightarrow> admin_only_links st)))"
proof (intro conjI allI impI)
  assume "blank e ''TELEGRAM_BOT_TOKEN''"
  then show "from_env e = Inl RuntimeError"
    by (rule from_env_token_blank)
next
  fix s
  assume "map_of e ''WARNINGS_LIMIT'' = Some s \<and> strip s \<noteq> [] \<and> int_of_str s = Inl ValueError"
  then show "from_env e = Inl RuntimeError"
    by (intro from_env_limit_bad [of e s]) (auto simp: int_of_str_def split: option.splits)
next
  assume a: "\<not> blank e ''TELEGRAM_BOT_TOKEN''
        \<and> \<not> (\<exists>s. map_of e ''WARNINGS_LIMIT'' = Some s \<and> strip s \<noteq> []
                  \<and> int_of_str s = Inl ValueError)"
  obtain s where s: "env e ''WARNINGS_LIMIT'' (Some ''3'') = Some s"
    using env_default_Some by blast
  have three: "parse_int ''3'' = Some 3"
    by code_simp
  have "\<exists>n. parse_int s = Some n \<and> (blank e ''WARNINGS_LIMIT'' \<longrightarrow> n = 3)"
  proof (cases "blank e ''WARNINGS_LIMIT''")
    case True
    then have "s = ''3''"
      using s by (simp add: env_blank)
    then show ?thesis
      using three by simp
  next
    case False
    then obtain v where v: "env e ''WARNINGS_LIMIT'' (Some ''3'') = Some v"
        "map_of e ''WARNINGS_LIMIT'' = Some v" and nb: "strip v \<noteq> []"
      by (auto simp: env_def blank_def split: option.splits)
    then have "int_of_str v \<noteq> Inl ValueError"
      using a by blast
    then show ?thesis
      using v s False by (auto simp: int_of_str_def split: option.splits)
  qed
  then obtain n where n: "parse_int s = Some n" "blank e ''WARNINGS_LIMIT'' \<longrightarrow> n = 3"
    by blast
  obtain t sp links where r: "map_of e ''TELEGRAM_BOT_TOKEN'' = Some t"
      "env e ''WARNINGS_STORAGE'' (Some ''./warnings.json'') = Some sp"
      "env e ''ADMIN_ONLY_LINKS'' (Some ''true'') = Some links"
      "from_env e = Inr \<lparr>bot_token = t, warnings_limit = max 1 n, storage_path = sp,
          admin_only_links = (lower links \<in> {''1'', ''true'', ''yes''})\<rparr>"
    using from_env_ok [OF _ s n(1)] a by blast
  have lt: "lower ''true'' = ''true''"
    by code_simp
  have "blank e ''WARNINGS_STORAGE'' \<longrightarrow> sp = ''./warnings.json''"
    using r(2) by (auto simp: env_blank)
  moreover have "blank e ''ADMIN_ONLY_LINKS'' \<longrightarrow> lower links = ''true''"
    using r(3) lt by (auto simp: env_blank)
  ultimately show "\<exists>st. from_env e = Inr st
            \<and> map_of e ''TELEGRAM_BOT_TOKEN'' = Some (bot_token st)
            \<and> (blank e ''WARNINGS_LIMIT'' \<longrightarrow> warnings_limit st = 3)
            \<and> (blank e ''WARNINGS_STORAGE'' \<longrightarrow> storage_path st = ''./warnings.json'')
            \<and> (blank e ''ADMIN_ONLY_LINKS'' \<longrightarrow> admin_only_links st)"
    using r(1,4) n(2) by auto
qed

theorem from_env_errors_and_defaults_witness:
  "from_env [] = Inl RuntimeError
   \<and> from_env [(''TELEGRAM_BOT_TOKEN'', '''')] = Inl RuntimeError
   \<and> from_env [(''TELEGRAM_BOT_TOKEN'', ''123:abc''), (''WARNINGS_LIMIT'', ''three'')]
       = Inl RuntimeError
   \<and> from_env [(''TELEGRAM_BOT_TOKEN'', ''123:abc'')]
       = Inr \<lparr>bot_token = ''123:abc'', warnings_limit = 3, storage_path = ''./warnings.json'',
            admin_only_links = True\<rparr>"
proof -
  have b0: "blank [] ''TELEGRAM_BOT_TOKEN''"
    by (simp add: blank_def)
  have b1: "blank [(''TELEGRAM_BOT_TOKEN'', '''')] ''TELEGRAM_BOT_TOKEN''"
    by (simp add: blank_def strip_def)
  have l: "map_of [(''TELEGRAM_BOT_TOKEN'', ''123:abc''), (''WARNINGS_LIMIT'', ''three'')]
        ''WARNINGS_LIMIT'' = Some ''three''
      \<and> strip ''three'' \<noteq> [] \<and> int_of_str ''three'' = Inl ValueError"
    by code_simp
  have ok: "\<not> blank [(''TELEGRAM_BOT_TOKEN'', ''123:abc'')] ''TELEGRAM_BOT_TOKEN''
      \<and> blank [(''TELEGRAM_BOT_TOKEN'', ''123:abc'')] ''WARNINGS_LIMIT''
      \<and> blank [(''TELEGRAM_BOT_TOKEN'', ''123:abc'')] ''WARNINGS_STORAGE''
      \<and> blank [(''TELEGRAM_BOT_TOKEN'', ''123:abc'')] ''ADMIN_ONLY_LINKS''
      \<and> map_of [(''TELEGRAM_BOT_TOKEN'', ''123:abc'')] ''WARNINGS_LIMIT'' = None
      \<and> map_of [(''TELEGRAM_BOT_TOKEN'', ''123:abc'')] ''TELEGRAM_BOT_TOKEN'' = Some ''123:abc''"
    by code_simp
  show ?thesis
    using b0 b1 l ok
      from_env_errors_and_defaults [of "[]"]
      from_env_errors_and_defaults [of "[(''TELEGRAM_BOT_TOKEN'', '''')]"]
      from_env_errors_and_defaults [of "[(''TELEGRAM_BOT_TOKEN'', ''123:abc''), (''WARNINGS_LIMIT'', ''three'')]"]
      from_env_errors_and_defaults [of "[(''TELEGRAM_BOT_TOKEN'', ''123:abc'')]"]
    by (auto simp del: map_of.simps)
qed

text \<open>A separator character that \<^verbatim>\<open>str.strip\<close> removes and \<^verbatim>\<open>int\<close> does not skip: the
  value is not blank, \<^verbatim>\<open>int\<close> rejects it, and \<open>from_env\<close> raises.\<close>

lemma from_env_separator_limit:
  "from_env [(''TELEGRAM_BOT_TOKEN'', ''123:abc''), (''WARNINGS_LIMIT'', [CHR 0x1C, CHR ''4''])]
     = Inl RuntimeError"
  by code_simp

lemma from_env_set:
  assumes "map_of e ''TELEGRAM_BOT_TOKEN'' = Some t" and "strip t \<noteq> []"
    and "env e ''WARNINGS_LIMIT'' (Some ''3'') = Some s" and "parse_int s = Some n"
  shows "\<exists>sp links. env e ''WARNINGS_STORAGE'' (Some ''./warnings.json'') = Some sp
     \<and> env e ''ADMIN_ONLY_LINKS'' (Some ''true'') = Some links
     \<and> from_env e = Inr \<lparr>bot_token = t, warnings_limit = max 1 n, storage_path = sp,
          admin_only_links = (lower links \<in> {''1'', ''true'', ''yes''})\<rparr>"
proof -
  have "\<not> blank e ''TELEGRAM_BOT_TOKEN''"
    using assms(1,2) by (simp add: blank_def)
  then show ?thesis
    using from_env_ok [OF _ assms(3,4)] assms(1) by auto
qed

text \<open>
  Claim C9. With the token set, a \<open>WARNINGS_LIMIT\<close> that \<^verbatim>\<open>int\<close> reads as the integer
  \<open>n\<close> gives settings with the limit \<open>max(1, n)\<close> and no error: 1 for every \<open>n\<close> below 1,
  \<open>n\<close> itself otherwise. A variable set to an empty or white-space-only string is blank,
  and \<open>from_env\<close> returns what it returns when that variable is removed from the
  environment; its default applies: the limit 3, the storage path \<^verbatim>\<open>./warnings.json\<close>,
  links for administrators only, and for the token, which has no default, the error.
  A value that is not blank is used as it is.
\<close>

theorem from_env_clamps_and_blank_is_unset:
  "(\<forall>t s n. map_of e ''TELEGRAM_BOT_TOKEN'' = Some t \<and> strip t \<noteq> []
           \<and> map_of e ''WARNINGS_LIMIT'' = Some s \<and> int_of_str s = Inr n
        \<longrightarrow> (\<exists>st. from_env e = Inr st \<and> bot_token st = t \<and> warnings_limit st = max 1 n))
   \<and> (\<forall>t. map_of e ''TELEGRAM_BOT_TOKEN'' = Some t \<and> strip t \<noteq> [] \<and> blank e ''WARNINGS_LIMIT''
        \<longrightarrow> (\<exists>st. from_env e = Inr st \<and> bot_token st = t \<and> warnings_limit st = 3))
   \<and> (\<forall>st. from_env e = Inr st
        \<longrightarrow> (blank e ''WARNINGS_STORAGE'' \<longrightarrow> storage_path st = ''./warnings.json'')
          \<and> (\<forall>v. map_of e ''WARNINGS_STORAGE'' = Some v \<and> strip v \<noteq> [] \<longrightarrow> storage_path st = v)
          \<and> (blank e ''ADMIN_ONLY_LINKS'' \<longrightarrow> admin_only_links st)
          \<and> (\<forall>v. map_of e ''ADMIN_ONLY_LINKS'' = Some v \<and> strip v \<noteq> []
                \<longrightarrow> admin_only_links st = (lower v \<in> {''1'', ''true'', ''yes''})))
   \<and> (blank e ''TELEGRAM_BOT_TOKEN'' \<longrightarrow> from_env e = Inl RuntimeError)
   \<and> (\<forall>k s. map_of e k = Some s \<and> strip s = []
        \<longrightarrow> blank e k \<and> from_env e = from_env (AList.delete k e))"
proof -
  have c1: "\<forall>t s n. map_of e ''TELEGRAM_BOT_TOKEN'' = Some t \<and> strip t \<noteq> []
           \<and> map_of e ''WARNINGS_LIMIT'' = Some s \<and> int_of_str s = Inr n
        \<longrightarrow> (\<exists>st. from_env e = Inr st \<and> bot_token st = t \<and> warnings_limit st = max 1 n)"
  proof (intro allI impI)
    fix t s n
    assume a: "map_of e ''TELEGRAM_BOT_TOKEN'' = Some t \<and> strip t \<noteq> []
           \<and> map_of e ''WARNINGS_LIMIT'' = Some s \<and> int_of_str s = Inr n"
    then have p: "parse_int s = Some n"
      by (auto simp: int_of_str_def split: option.splits)
    then have "env e ''WARNINGS_LIMIT'' (Some ''3'') = Some s"
      using a parse_int_not_blank by (simp add: env_set)
    then show "\<exists>st. from_env e = Inr st \<and> bot_token st = t \<and> warnings_limit st = max 1 n"
      using from_env_set [of e t s n] a p by auto
  qed
  have c2: "\<forall>t. map_of e ''TELEGRAM_BOT_TOKEN'' = Some t \<and> strip t \<noteq> [] \<and> blank e ''WARNINGS_LIMIT''
        \<longrightarrow> (\<exists>st. from_env e = Inr st \<and> bot_token st = t \<and> warnings_limit st = 3)"
  proof (intro allI impI)
    fix t
    assume a: "map_of e ''TELEGRAM_BOT_TOKEN'' = Some t \<and> strip t \<noteq> [] \<and> blank e ''WARNINGS_LIMIT''"
    have three: "parse_int ''3'' = Some 3"
      by code_simp
    have "env e ''WARNINGS_LIMIT'' (Some ''3'') = Some ''3''"
      using a by (simp add: env_blank)
    then show "\<exists>st. from_env e = Inr st \<and> bot_token st = t \<and> warnings_limit st = 3"
      using from_env_set [of e t "''3''" 3] a three by auto
  qed
  have c3: "\<forall>st. from_env e = Inr st
        \<longrightarrow> (blank e ''WARNINGS_STORAGE'' \<longrightarrow> storage_path st = ''./warnings.json'')
          \<and> (\<forall>v. map_of e ''WARNINGS_STORAGE'' = Some v \<and> strip v \<noteq> [] \<longrightarrow> storage_path st = v)
          \<and> (blank e ''ADMIN_ONLY_LINKS'' \<longrightarrow> admin_only_links st)
          \<and> (\<forall>v. map_of e ''ADMIN_ONLY_LINKS'' = Some v \<and> strip v \<noteq> []
                \<longrightarrow> admin_only_links st = (lower v \<in> {''1'', ''true'', ''yes''}))"
  proof (intro allI impI)
    fix st
    assume r: "from_env e = Inr st"
    have nb: "\<not> blank e ''TELEGRAM_BOT_TOKEN''"
      using r from_env_token_blank [of e] by auto
    then obtain t where t: "env e ''TELEGRAM_BOT_TOKEN'' None = Some t" "t \<noteq> []"
      using env_not_blank by blast
    obtain s where s: "env e ''WARNINGS_LIMIT'' (Some ''3'') = Some s"
      using env_default_Some by blast
    obtain n where n: "parse_int s = Some n"
      using r t s by (cases "parse_int s") (auto simp: from_env_def int_of_str_def)
    obtain t' sp links where f: "env e ''WARNINGS_STORAGE'' (Some ''./warnings.json'') = Some sp"
        "env e ''ADMIN_ONLY_LINKS'' (Some ''true'') = Some links"
        "from_env e = Inr \<lparr>bot_token = t', warnings_limit = max 1 n, storage_path = sp,
            admin_only_links = (lower links \<in> {''1'', ''true'', ''yes''})\<rparr>"
      using from_env_ok [OF nb s n] by blast
    have sp: "storage_path st = sp"
      and li: "admin_only_links st = (lower links \<in> {''1'', ''true'', ''yes''})"
      using r f(3) by auto
    have lt: "lower ''true'' = ''true''"
      by code_simp
    have g1: "blank e ''WARNINGS_STORAGE'' \<longrightarrow> storage_path st = ''./warnings.json''"
      using f(1) sp by (auto simp: env_blank)
    have g2: "\<forall>v. map_of e ''WARNINGS_STORAGE'' = Some v \<and> strip v \<noteq> [] \<longrightarrow> storage_path st = v"
      using f(1) sp by (auto simp: env_set)
    have g3: "blank e ''ADMIN_ONLY_LINKS'' \<longrightarrow> admin_only_links st"
      using f(2) li lt by (auto simp: env_blank)
    have g4: "\<forall>v. map_of e ''ADMIN_ONLY_LINKS'' = Some v \<and> strip v \<noteq> []
        \<longrightarrow> admin_only_links st = (lower v \<in> {''1'', ''true'', ''yes''})"
      using f(2) li by (auto simp: env_set)
    show "(blank e ''WARNINGS_STORAGE'' \<longrightarrow> storage_path st = ''./warnings.json'')
          \<and> (\<forall>v. map_of e ''WARNINGS_STORAGE'' = Some v \<and> strip v \<noteq> [] \<longrightarrow> storage_path st = v)
          \<and> (blank e ''ADMIN_ONLY_LINKS'' \<longrightarrow> admin_only_links st)
          \<and> (\<forall>v. map_of e ''ADMIN_ONLY_LINKS'' = Some v \<and> strip v \<noteq> []
                \<longrightarrow> admin_only_links st = (lower v \<in> {''1'', ''true'', ''yes''}))"
      using g1 g2 g3 g4 by (intro conjI)
  qed
  have c4: "blank e ''TELEGRAM_BOT_TOKEN'' \<longrightarrow> from_env e = Inl RuntimeError"
    using from_env_token_blank [of e] by blast
  have c5: "\<forall>k s. map_of e k = Some s \<and> strip s = []
        \<longrightarrow> blank e k \<and> from_env e = from_env (AList.delete k e)"
  proof (intro allI impI conjI)
    fix k s
    assume a: "map_of e k = Some s \<and> strip s = []"
    then show "blank e k"
      by (simp add: blank_def)
    have h: "env e key dflt = env (AList.delete k e) key dflt" for key dflt
      using a by (intro env_delete_blank [of e k s]) simp_all
    show "from_env e = from_env (AList.delete k e)"
      unfolding from_env_def h ..
  qed
  show ?thesis
    using c1 c2 c3 c4 c5 by (intro conjI)
qed

theorem from_env_clamps_and_blank_is_unset_witness:
  "from_env [(''TELEGRAM_BOT_TOKEN'', ''123:abc''), (''WARNINGS_LIMIT'', ''-4'')]
     = Inr \<lparr>bot_token = ''123:abc'', warnings_limit = 1, storage_path = ''./warnings.json'',
          admin_only_links = True\<rparr>
   \<and> from_env [(''TELEGRAM_BOT_TOKEN'', ''123:abc''), (''WARNINGS_LIMIT'', ''5'')]
     = Inr \<lparr>bot_token = ''123:abc'', warnings_limit = 5, storage_path = ''./warnings.json'',
          admin_only_links = True\<rparr>
   \<and> from_env [(''TELEGRAM_BOT_TOKEN'', ''123:abc''), (''WARNINGS_LIMIT'', ''  '')]
     = Inr \<lparr>bot_token = ''123:abc'', warnings_limit = 3, storage_path = ''./warnings.json'',
          admin_only_links = True\<rparr>
   \<and> from_env [(''TELEGRAM_BOT_TOKEN'', ''123:abc''), (''WARNINGS_STORAGE'', ''  '')]
     = from_env [(''TELEGRAM_BOT_TOKEN'', ''123:abc'')]
   \<and> from_env [(''TELEGRAM_BOT_TOKEN'', ''  '')] = Inl RuntimeError"
proof -
  let ?e1 = "[(''TELEGRAM_BOT_TOKEN'', ''123:abc''), (''WARNINGS_LIMIT'', ''-4'')]"
  let ?e2 = "[(''TELEGRAM_BOT_TOKEN'', ''123:abc''), (''WARNINGS_LIMIT'', ''5'')]"
  let ?e3 = "[(''TELEGRAM_BOT_TOKEN'', ''123:abc''), (''WARNINGS_LIMIT'', ''  '')]"
  let ?e4 = "[(''TELEGRAM_BOT_TOKEN'', ''123:abc''), (''WARNINGS_STORAGE'', ''  '')]"
  let ?e5 = "[(''TELEGRAM_BOT_TOKEN'', ''  '')]"
  have a1: "map_of ?e1 ''TELEGRAM_BOT_TOKEN'' = Some ''123:abc'' \<and> strip ''123:abc'' \<noteq> []
      \<and> map_of ?e1 ''WARNINGS_LIMIT'' = Some ''-4'' \<and> int_of_str ''-4'' = Inr (- 4)"
    by code_simp
  obtain st1 where st1: "from_env ?e1 = Inr st1" "warnings_limit st1 = max 1 (- 4)"
    using a1 from_env_clamps_and_blank_is_unset [of ?e1] by blast
  have v1: "from_env ?e1 = Inr \<lparr>bot_token = ''123:abc'', warnings_limit = 1,
      storage_path = ''./warnings.json'', admin_only_links = True\<rparr>"
    by code_simp
  have a2: "map_of ?e2 ''TELEGRAM_BOT_TOKEN'' = Some ''123:abc'' \<and> strip ''123:abc'' \<noteq> []
      \<and> map_of ?e2 ''WARNINGS_LIMIT'' = Some ''5'' \<and> int_of_str ''5'' = Inr 5"
    by code_simp
  obtain st2 where st2: "from_env ?e2 = Inr st2" "warnings_limit st2 = max 1 5"
    using a2 from_env_clamps_and_blank_is_unset [of ?e2] by blast
  have v2: "from_env ?e2 = Inr \<lparr>bot_token = ''123:abc'', warnings_limit = 5,
      storage_path = ''./warnings.json'', admin_only_links = True\<rparr>"
    by code_simp
  have a3: "map_of ?e3 ''TELEGRAM_BOT_TOKEN'' = Some ''123:abc'' \<and> strip ''123:abc'' \<noteq> []
      \<and> blank ?e3 ''WARNINGS_LIMIT''"
    by code_simp
  obtain st3 where st3: "from_env ?e3 = Inr st3" "warnings_limit st3 = 3"
    using a3 from_env_clamps_and_blank_is_unset [of ?e3] by blast
  have v3: "from_env ?e3 = Inr \<lparr>bot_token = ''123:abc'', warnings_limit = 3,
      storage_path = ''./warnings.json'', admin_only_links = True\<rparr>"
    by code_simp
  have a4: "map_of ?e4 ''WARNINGS_STORAGE'' = Some ''  '' \<and> strip ''  '' = []
      \<and> AList.delete ''WARNINGS_STORAGE'' ?e4 = [(''TELEGRAM_BOT_TOKEN'', ''123:abc'')]"
    by code_simp
  have v4: "from_env ?e4 = from_env (AList.delete ''WARNINGS_STORAGE'' ?e4)"
    using a4 from_env_clamps_and_blank_is_unset [of ?e4] by blast
  have a5: "blank ?e5 ''TELEGRAM_BOT_TOKEN''"
    by code_simp
  have v5: "from_env ?e5 = Inl RuntimeError"
    using a5 from_env_clamps_and_blank_is_unset [of ?e5] by blast
  show ?thesis
    using v1 st1 v2 st2 v3 st3 v4 a4 v5 by simp
qed

section \<open>Muting and the escalation of warnings\<close>

lemma targets_cases:
  assumes "targets u c chat_id m t"
  obtains r where "message u = Some m" "reply_to_message m = Some r" "from_user r = Some t"
    "effective_chat u = Some chat_id"
    "is_admin (effective_user u) (dict_get chat_id [] (chat_admins c))"
  using assms by (auto simp: targets_def split: option.splits)

lemma mute_user_targets:
  assumes "targets u c chat_id m t" and "mute_minutes dm (args c) = Inr k"
  shows "mute_user u dm c =
     (if date m + 60 * k \<le> max_timestamp then
        (Returned, c\<lparr>calls := calls c @ [GetChatAdministrators chat_id,
           RestrictChatMember chat_id (user_id t) NoMessages (Some (date m + 60 * k)),
           ReplyText (Muted t k)]\<rparr>)
      else (Raised OverflowError, c\<lparr>calls := calls c @ [GetChatAdministrators chat_id]\<rparr>))"
  using assms(1)
proof (rule targets_cases)
  fix r
  assume "message u = Some m" "reply_to_message m = Some r" "from_user r = Some t"
    "effective_chat u = Some chat_id"
    "is_admin (effective_user u) (dict_get chat_id [] (chat_admins c))"
  then show ?thesis
    using assms(2) by (simp add: mute_user_def get_admin_ids_def call_def)
qed

lemma mute_minutes_args:
  "mute_minutes None as =
     Inr (case as of [] \<Rightarrow> 10 | a # _ \<Rightarrow> (case int_of_str a of Inr n \<Rightarrow> max 1 n | Inl e \<Rightarrow> 10))"
  by (auto simp: mute_minutes_def int_of_str_def split: list.splits option.splits sum.splits)

lemma mute_minutes_given: "n \<noteq> 0 \<Longrightarrow> mute_minutes (Some n) as = Inr n"
  by (simp add: mute_minutes_def)

text \<open>
  Claim C5. When \<open>/mute\<close> passes its guards, the duration is \<open>k\<close> minutes, where \<open>k\<close> is 10
  without an argument, \<open>max(1, n)\<close> when \<^verbatim>\<open>int\<close> reads the first argument as \<open>n\<close>, and
  10 when \<^verbatim>\<open>int\<close> rejects the first argument. As long as the message's date plus \<open>k\<close>
  minutes is a date a \<^verbatim>\<open>datetime\<close> can hold, the handler returns normally, and its calls
  are the fetch of the administrators, one restriction of the target until that date,
  and the report of \<open>k\<close> minutes, nothing else: a rejected argument is reported to nobody.
\<close>

theorem mute_duration_default_clamp_fallback:
  assumes "targets u c chat_id m t"
  shows "\<exists>k. mute u c =
       (if date m + 60 * k \<le> max_timestamp then
          (Returned, c\<lparr>calls := calls c @ [GetChatAdministrators chat_id,
             RestrictChatMember chat_id (user_id t) NoMessages (Some (date m + 60 * k)),
             ReplyText (Muted t k)]\<rparr>)
        else (Raised OverflowError, c\<lparr>calls := calls c @ [GetChatAdministrators chat_id]\<rparr>))
     \<and> (args c = [] \<longrightarrow> k = 10)
     \<and> (\<forall>a rest n. args c = a # rest \<and> int_of_str a = Inr n \<longrightarrow> k = max 1 n)
     \<and> (\<forall>a rest e. args c = a # rest \<and> int_of_str a = Inl e \<longrightarrow> k = 10)"
proof -
  define k where "k = (case args c of [] \<Rightarrow> 10
      | a # _ \<Rightarrow> (case int_of_str a of Inr n \<Rightarrow> max 1 n | Inl e \<Rightarrow> 10))"
  have mm: "mute_minutes None (args c) = Inr k"
    by (simp add: mute_minutes_args k_def)
  have "mute u c =
       (if date m + 60 * k \<le> max_timestamp then
          (Returned, c\<lparr>calls := calls c @ [GetChatAdministrators chat_id,
             RestrictChatMember chat_id (user_id t) NoMessages (Some (date m + 60 * k)),
             ReplyText (Muted t k)]\<rparr>)
        else (Raised OverflowError, c\<lparr>calls := calls c @ [GetChatAdministrators chat_id]\<rparr>))"
    unfolding mute_def using assms mm by (rule mute_user_targets)
  moreover have "args c = [] \<longrightarrow> k = 10"
    by (simp add: k_def)
  moreover have "\<forall>a rest n. args c = a # rest \<and> int_of_str a = Inr n \<longrightarrow> k = max 1 n"
    by (auto simp: k_def)
  moreover have "\<forall>a rest e. args c = a # rest \<and> int_of_str a = Inl e \<longrightarrow> k = 10"
    by (auto simp: k_def)
  ultimately show ?thesis
    by blast
qed

theorem mute_duration_default_clamp_fallback_witness:
  "targets
     \<lparr>message = Some (Message 11 1000 (Some \<lparr>user_id = 1, full_name = ''ann''\<rparr>)
        (Some (Message 10 900 (Some \<lparr>user_id = 7, full_name = ''bob''\<rparr>) None [])) []),
      effective_chat = Some (- 100), effective_user = Some \<lparr>user_id = 1, full_name = ''ann''\<rparr>,
      chat_member = None\<rparr>
     \<lparr>args = [''0''], warnings = \<lparr>path = ''w.json'', data = []\<rparr>,
      settings = \<lparr>bot_token = ''123:abc'', warnings_limit = 3, storage_path = ''w.json'',
        admin_only_links = True\<rparr>,
      admin_ids = None, disk = [], chat_admins = [(- 100, [1])], calls = []\<rparr>
     (- 100)
     (Message 11 1000 (Some \<lparr>user_id = 1, full_name = ''ann''\<rparr>)
        (Some (Message 10 900 (Some \<lparr>user_id = 7, full_name = ''bob''\<rparr>) None [])) [])
     \<lparr>user_id = 7, full_name = ''bob''\<rparr>
   \<and> calls (snd (mute
     \<lparr>message = Some (Message 11 1000 (Some \<lparr>user_id = 1, full_name = ''ann''\<rparr>)
        (Some (Message 10 900 (Some \<lparr>user_id = 7, full_name = ''bob''\<rparr>) None [])) []),
      effective_chat = Some (- 100), effective_user = Some \<lparr>user_id = 1, full_name = ''ann''\<rparr>,
      chat_member = None\<rparr>
     \<lparr>args = [''0''], warnings = \<lparr>path = ''w.json'', data = []\<rparr>,
      settings = \<lparr>bot_token = ''123:abc'', warnings_limit = 3, storage_path = ''w.json'',
        admin_only_links = True\<rparr>,
      admin_ids = None, disk = [], chat_admins = [(- 100, [1])], calls = []\<rparr>))
     = [GetChatAdministrators (- 100),
        RestrictChatMember (- 100) 7 NoMessages (Some 1060),
        ReplyText (Muted \<lparr>user_id = 7, full_name = ''bob''\<rparr> 1)]"
proof -
  let ?u = "\<lparr>message = Some (Message 11 1000 (Some \<lparr>user_id = 1, full_name = ''ann''\<rparr>)
        (Some (Message 10 900 (Some \<lparr>user_id = 7, full_name = ''bob''\<rparr>) None [])) []),
      effective_chat = Some (- 100), effective_user = Some \<lparr>user_id = 1, full_name = ''ann''\<rparr>,
      chat_member = None\<rparr>"
  let ?c = "\<lparr>args = [''0''], warnings = \<lparr>path = ''w.json'', data = []\<rparr>,
      settings = \<lparr>bot_token = ''123:abc'', warnings_limit = 3, storage_path = ''w.json'',
        admin_only_links = True\<rparr>,
      admin_ids = None, disk = [], chat_admins = [(- 100, [1])], calls = []\<rparr>"
  let ?m = "Message 11 1000 (Some \<lparr>user_id = 1, full_name = ''ann''\<rparr>)
        (Some (Message 10 900 (Some \<lparr>user_id = 7, full_name = ''bob''\<rparr>) None [])) []"
  let ?t = "\<lparr>user_id = 7, full_name = ''bob''\<rparr>"
  have t: "targets ?u ?c (- 100) ?m ?t"
    by (simp add: targets_def is_admin_def dict_get_def)
  have z: "int_of_str ''0'' = Inr 0"
    by code_simp
  obtain k where k: "mute ?u ?c =
       (if date ?m + 60 * k \<le> max_timestamp then
          (Returned, ?c\<lparr>calls := calls ?c @ [GetChatAdministrators (- 100),
             RestrictChatMember (- 100) (user_id ?t) NoMessages (Some (date ?m + 60 * k)),
             ReplyText (Muted ?t k)]\<rparr>)
        else (Raised OverflowError, ?c\<lparr>calls := calls ?c @ [GetChatAdministrators (- 100)]\<rparr>))"
     and "\<forall>a rest n. args ?c = a # rest \<and> int_of_str a = Inr n \<longrightarrow> k = max 1 n"
    using mute_duration_default_clamp_fallback [OF t] by blast
  then have "k = 1"
    using z by simp
  then show ?thesis
    using t k by (simp add: max_timestamp_def)
qed

lemma store_increment_eq:
  "store_increment chat_id uid c =
     (stored_count c chat_id uid + 1,
      c\<lparr>warnings := fst (snd (increment chat_id uid (warnings c, disk c))),
        disk := snd (snd (increment chat_id uid (warnings c, disk c)))\<rparr>)"
  by (simp add: store_increment_def split_beta stored_count_def fst_increment fst_get)

lemma stored_count_store_increment:
  "stored_count (snd (store_increment chat_id uid c)) chat_id uid = stored_count c chat_id uid + 1"
  using count_apply_op [of chat_id uid "Increment chat_id uid" "(warnings c, disk c)"]
  by (simp add: store_increment_eq stored_count_def)

lemma store_reset_eq:
  "store_reset chat_id uid c =
     c\<lparr>warnings := fst (reset chat_id uid (warnings c, disk c)),
       disk := snd (reset chat_id uid (warnings c, disk c))\<rparr>"
  by (simp add: store_reset_def split_beta)

lemma stored_count_store_reset:
  "stored_count (store_reset chat_id uid c) chat_id uid = 0"
  using count_apply_op [of chat_id uid "Reset chat_id uid" "(warnings c, disk c)"]
  by (simp add: store_reset_eq stored_count_def)

lemma stored_count_calls [simp]:
  "stored_count (c\<lparr>calls := x\<rparr>) chat_id uid = stored_count c chat_id uid"
  by (simp add: stored_count_def)

lemma stored_count_call [simp]:
  "stored_count (call a c) chat_id uid = stored_count c chat_id uid"
  by (simp add: stored_count_def call_def)

lemma warn_below_limit:
  assumes "targets u c chat_id m t"
    and "stored_count c chat_id (user_id t) + 1 < warnings_limit (settings c)"
  shows "\<exists>c'. warn u c = (Returned, c')
     \<and> calls c' = calls c @ [GetChatAdministrators chat_id,
          ReplyText (WarnRecorded (stored_count c chat_id (user_id t) + 1) t)]
     \<and> stored_count c' chat_id (user_id t) = stored_count c chat_id (user_id t) + 1
     \<and> chat_admins c' = chat_admins c \<and> settings c' = settings c"
  using assms(1)
proof (rule targets_cases)
  fix r
  assume a: "message u = Some m" "reply_to_message m = Some r" "from_user r = Some t"
    "effective_chat u = Some chat_id"
    "is_admin (effective_user u) (dict_get chat_id [] (chat_admins c))"
  let ?c1 = "c\<lparr>calls := calls c @ [GetChatAdministrators chat_id]\<rparr>"
  have sc: "stored_count ?c1 chat_id (user_id t) = stored_count c chat_id (user_id t)"
    by simp
  have w: "warn u c = (Returned, call (ReplyText (WarnRecorded (stored_count c chat_id (user_id t) + 1) t))
      (snd (store_increment chat_id (user_id t) ?c1)))"
    using a assms(2) sc
    by (simp add: warn_def get_admin_ids_def store_increment_eq [of chat_id "user_id t" ?c1])
  have "stored_count (snd (store_increment chat_id (user_id t) ?c1)) chat_id (user_id t)
      = stored_count c chat_id (user_id t) + 1"
    using stored_count_store_increment [of chat_id "user_id t" ?c1] sc by simp
  then show ?thesis
    using w by (simp add: store_increment_eq [of chat_id "user_id t" ?c1] call_def stored_count_def)
qed

lemma store_increment_fields:
  "calls (snd (store_increment chat_id uid c)) = calls c"
  "chat_admins (snd (store_increment chat_id uid c)) = chat_admins c"
  "settings (snd (store_increment chat_id uid c)) = settings c"
  "args (snd (store_increment chat_id uid c)) = args c"
  "admin_ids (snd (store_increment chat_id uid c)) = admin_ids c"
  "fst (store_increment chat_id uid c) = stored_count c chat_id uid + 1"
  by (simp_all add: store_increment_eq)

lemma store_reset_fields:
  "calls (store_reset chat_id uid c) = calls c"
  "chat_admins (store_reset chat_id uid c) = chat_admins c"
  "settings (store_reset chat_id uid c) = settings c"
  "args (store_reset chat_id uid c) = args c"
  "admin_ids (store_reset chat_id uid c) = admin_ids c"
  by (simp_all add: store_reset_eq)

lemma call_fields:
  "calls (call a c) = calls c @ [a]"
  "chat_admins (call a c) = chat_admins c"
  "settings (call a c) = settings c"
  "args (call a c) = args c"
  "admin_ids (call a c) = admin_ids c"
  "warnings (call a c) = warnings c"
  "disk (call a c) = disk c"
  by (simp_all add: call_def)

lemma get_admin_ids_eq:
  "get_admin_ids chat_id c = (dict_get chat_id [] (chat_admins c), call (GetChatAdministrators chat_id) c)"
  by (simp add: get_admin_ids_def call_def)

lemma mute_user_targets_call:
  assumes "targets u c chat_id m t" and "mute_minutes dm (args c) = Inr k"
    and "date m + 60 * k \<le> max_timestamp"
  shows "mute_user u dm c =
     (Returned, call (ReplyText (Muted t k))
        (call (RestrictChatMember chat_id (user_id t) NoMessages (Some (date m + 60 * k)))
           (call (GetChatAdministrators chat_id) c)))"
  using mute_user_targets [OF assms(1,2)] assms(3) by (simp add: call_def)

lemma warn_at_limit:
  assumes "targets u c chat_id m t"
    and "warnings_limit (settings c) \<le> stored_count c chat_id (user_id t) + 1"
    and "date m + 60 * 60 \<le> max_timestamp"
  shows "\<exists>c'. warn u c = (Returned, c')
     \<and> calls c' = calls c @ [GetChatAdministrators chat_id,
          ReplyText (WarnRecorded (stored_count c chat_id (user_id t) + 1) t),
          GetChatAdministrators chat_id,
          RestrictChatMember chat_id (user_id t) NoMessages (Some (date m + 60 * 60)),
          ReplyText (Muted t 60),
          ReplyText (AutoMuted t)]
     \<and> stored_count c' chat_id (user_id t) = 0
     \<and> chat_admins c' = chat_admins c \<and> settings c' = settings c"
  using assms(1)
proof (rule targets_cases)
  fix r
  assume a: "message u = Some m" "reply_to_message m = Some r" "from_user r = Some t"
    "effective_chat u = Some chat_id"
    "is_admin (effective_user u) (dict_get chat_id [] (chat_admins c))"
  define n where "n = stored_count c chat_id (user_id t) + 1"
  define c1 where "c1 = call (GetChatAdministrators chat_id) c"
  define c2 where "c2 = snd (store_increment chat_id (user_id t) c1)"
  define c3 where "c3 = call (ReplyText (WarnRecorded n t)) c2"
  define c4 where "c4 = call (ReplyText (Muted t 60))
        (call (RestrictChatMember chat_id (user_id t) NoMessages (Some (date m + 60 * 60)))
           (call (GetChatAdministrators chat_id) c3))"
  define c5 where "c5 = store_reset chat_id (user_id t) c4"
  define c6 where "c6 = call (ReplyText (AutoMuted t)) c5"
  have g: "get_admin_ids chat_id c = (dict_get chat_id [] (chat_admins c), c1)"
    by (simp add: get_admin_ids_eq c1_def)
  have "stored_count c1 chat_id (user_id t) = stored_count c chat_id (user_id t)"
    by (simp add: c1_def)
  then have i: "store_increment chat_id (user_id t) c1 = (n, c2)"
    by (simp add: c2_def n_def prod_eq_iff store_increment_fields)
  have f2: "settings c2 = settings c" "chat_admins c2 = chat_admins c"
      "calls c2 = calls c @ [GetChatAdministrators chat_id]" "args c2 = args c"
    by (simp_all add: c2_def c1_def store_increment_fields call_fields)
  have f3: "chat_admins c3 = chat_admins c" "args c3 = args c" "settings c3 = settings c"
      "calls c3 = calls c @ [GetChatAdministrators chat_id, ReplyText (WarnRecorded n t)]"
    by (simp_all add: c3_def f2 call_fields)
  have "targets u c3 chat_id m t"
    using assms(1) f3(1) by (simp add: targets_def)
  then have mu: "mute_user u (Some 60) c3 = (Returned, c4)"
    unfolding c4_def using assms(3)
    by (intro mute_user_targets_call) (simp_all add: mute_minutes_given)
  have lim: "warnings_limit (settings c2) \<le> n"
    using assms(2) by (simp add: f2 n_def)
  have w: "warn u c = (Returned, c6)"
    using a g i lim mu
    by (simp add: warn_def c3_def [symmetric] c5_def [symmetric] c6_def [symmetric])
  have "calls c6 = calls c3 @ [GetChatAdministrators chat_id,
        RestrictChatMember chat_id (user_id t) NoMessages (Some (date m + 60 * 60)),
        ReplyText (Muted t 60), ReplyText (AutoMuted t)]"
    by (simp add: c6_def c5_def c4_def call_fields store_reset_fields)
  moreover have "stored_count c6 chat_id (user_id t) = 0"
    by (simp add: c6_def c5_def stored_count_store_reset)
  moreover have "chat_admins c6 = chat_admins c" "settings c6 = settings c"
    by (simp_all add: c6_def c5_def c4_def call_fields store_reset_fields f3)
  ultimately show ?thesis
    using w f3(4) by (simp add: n_def)
qed

text \<open>
  Claim C2. When \<open>/warn\<close> passes its guards and the count that \<open>increment\<close> returns is at
  least the configured limit, the handler restricts the target until the message's date
  plus 60 minutes (a date a \<^verbatim>\<open>datetime\<close> can hold), and the stored count of the target
  is 0 afterwards. With the limit 3 and a stored count of 0, three warns of the same user
  in the same chat report the counts 1, 2 and 3 and leave the stored counts 1, 2 and
  then, after the mute of the third warn, 0.
\<close>

theorem warn_reaching_limit_mutes_and_resets:
  assumes "targets u c chat_id m t"
  shows "(warnings_limit (settings c) \<le> fst (increment chat_id (user_id t) (warnings c, disk c))
        \<and> date m + 60 * 60 \<le> max_timestamp
      \<longrightarrow> (\<exists>c'. warn u c = (Returned, c')
            \<and> calls c' = calls c @ [GetChatAdministrators chat_id,
                 ReplyText (WarnRecorded (fst (increment chat_id (user_id t) (warnings c, disk c))) t),
                 GetChatAdministrators chat_id,
                 RestrictChatMember chat_id (user_id t) NoMessages (Some (date m + 60 * 60)),
                 ReplyText (Muted t 60),
                 ReplyText (AutoMuted t)]
            \<and> stored_count c' chat_id (user_id t) = 0))
    \<and> (warnings_limit (settings c) = 3 \<and> stored_count c chat_id (user_id t) = 0
        \<and> targets u2 c chat_id m2 t \<and> targets u3 c chat_id m3 t
        \<and> date m3 + 60 * 60 \<le> max_timestamp
      \<longrightarrow> (\<exists>c1 c2 c3. warn u c = (Returned, c1) \<and> warn u2 c1 = (Returned, c2)
            \<and> warn u3 c2 = (Returned, c3)
            \<and> calls c1 = calls c @ [GetChatAdministrators chat_id, ReplyText (WarnRecorded 1 t)]
            \<and> stored_count c1 chat_id (user_id t) = 1
            \<and> calls c2 = calls c1 @ [GetChatAdministrators chat_id, ReplyText (WarnRecorded 2 t)]
            \<and> stored_count c2 chat_id (user_id t) = 2
            \<and> calls c3 = calls c2 @ [GetChatAdministrators chat_id,
                 ReplyText (WarnRecorded 3 t),
                 GetChatAdministrators chat_id,
                 RestrictChatMember chat_id (user_id t) NoMessages (Some (date m3 + 60 * 60)),
                 ReplyText (Muted t 60),
                 ReplyText (AutoMuted t)]
            \<and> stored_count c3 chat_id (user_id t) = 0))"
proof (intro conjI impI)
  have n: "fst (increment chat_id (user_id t) (warnings c, disk c))
      = stored_count c chat_id (user_id t) + 1"
    by (simp add: fst_increment stored_count_def fst_get)
  assume a: "warnings_limit (settings c) \<le> fst (increment chat_id (user_id t) (warnings c, disk c))
        \<and> date m + 60 * 60 \<le> max_timestamp"
  then have "warnings_limit (settings c) \<le> stored_count c chat_id (user_id t) + 1"
    by (simp only: n)
  from warn_at_limit [OF assms this] a
  show "\<exists>c'. warn u c = (Returned, c')
            \<and> calls c' = calls c @ [GetChatAdministrators chat_id,
                 ReplyText (WarnRecorded (fst (increment chat_id (user_id t) (warnings c, disk c))) t),
                 GetChatAdministrators chat_id,
                 RestrictChatMember chat_id (user_id t) NoMessages (Some (date m + 60 * 60)),
                 ReplyText (Muted t 60),
                 ReplyText (AutoMuted t)]
            \<and> stored_count c' chat_id (user_id t) = 0"
    unfolding n by blast
next
  assume h: "warnings_limit (settings c) = 3 \<and> stored_count c chat_id (user_id t) = 0
        \<and> targets u2 c chat_id m2 t \<and> targets u3 c chat_id m3 t
        \<and> date m3 + 60 * 60 \<le> max_timestamp"
  have "stored_count c chat_id (user_id t) + 1 < warnings_limit (settings c)"
    using h by simp
  from warn_below_limit [OF assms this]
  obtain c1 where c1: "warn u c = (Returned, c1)"
      "calls c1 = calls c @ [GetChatAdministrators chat_id, ReplyText (WarnRecorded 1 t)]"
      "stored_count c1 chat_id (user_id t) = 1"
      "chat_admins c1 = chat_admins c" "settings c1 = settings c"
    using h by auto
  have t2: "targets u2 c1 chat_id m2 t"
    using h c1(4) by (simp add: targets_def)
  have "stored_count c1 chat_id (user_id t) + 1 < warnings_limit (settings c1)"
    using h c1(3,5) by simp
  from warn_below_limit [OF t2 this]
  obtain c2 where c2: "warn u2 c1 = (Returned, c2)"
      "calls c2 = calls c1 @ [GetChatAdministrators chat_id, ReplyText (WarnRecorded 2 t)]"
      "stored_count c2 chat_id (user_id t) = 2"
      "chat_admins c2 = chat_admins c1" "settings c2 = settings c1"
    using c1(3) by auto
  have t3: "targets u3 c2 chat_id m3 t"
    using h c1(4) c2(4) by (simp add: targets_def)
  have "warnings_limit (settings c2) \<le> stored_count c2 chat_id (user_id t) + 1"
    using h c1(5) c2(3,5) by simp
  from warn_at_limit [OF t3 this] h
  obtain c3 where c3: "warn u3 c2 = (Returned, c3)"
      "calls c3 = calls c2 @ [GetChatAdministrators chat_id,
                 ReplyText (WarnRecorded 3 t),
                 GetChatAdministrators chat_id,
                 RestrictChatMember chat_id (user_id t) NoMessages (Some (date m3 + 60 * 60)),
                 ReplyText (Muted t 60),
                 ReplyText (AutoMuted t)]"
      "stored_count c3 chat_id (user_id t) = 0"
    using c2(3) by auto
  show "\<exists>c1 c2 c3. warn u c = (Returned, c1) \<and> warn u2 c1 = (Returned, c2)
            \<and> warn u3 c2 = (Returned, c3)
            \<and> calls c1 = calls c @ [GetChatAdministrators chat_id, ReplyText (WarnRecorded 1 t)]
            \<and> stored_count c1 chat_id (user_id t) = 1
            \<and> calls c2 = calls c1 @ [GetChatAdministrators chat_id, ReplyText (WarnRecorded 2 t)]
            \<and> stored_count c2 chat_id (user_id t) = 2
            \<and> calls c3 = calls c2 @ [GetChatAdministrators chat_id,
                 ReplyText (WarnRecorded 3 t),
                 GetChatAdministrators chat_id,
                 RestrictChatMember chat_id (user_id t) NoMessages (Some (date m3 + 60 * 60)),
                 ReplyText (Muted t 60),
                 ReplyText (AutoMuted t)]
            \<and> stored_count c3 chat_id (user_id t) = 0"
    using c1(1,2,3) c2(1,2,3) c3 by blast
qed

theorem warn_reaching_limit_mutes_and_resets_witness:
  "calls (snd (warn
     \<lparr>message = Some (Message 11 1000 (Some \<lparr>user_id = 1, full_name = ''ann''\<rparr>)
        (Some (Message 10 900 (Some \<lparr>user_id = 7, full_name = ''bob''\<rparr>) None [])) []),
      effective_chat = Some (- 100), effective_user = Some \<lparr>user_id = 1, full_name = ''ann''\<rparr>,
      chat_member = None\<rparr>
     \<lparr>args = [], warnings = \<lparr>path = ''w.json'', data = [(''-100'', [(''7'', 2)])]\<rparr>,
      settings = \<lparr>bot_token = ''123:abc'', warnings_limit = 3, storage_path = ''w.json'',
        admin_only_links = True\<rparr>,
      admin_ids = None, disk = [], chat_admins = [(- 100, [1])], calls = []\<rparr>))
   = [GetChatAdministrators (- 100),
      ReplyText (WarnRecorded 3 \<lparr>user_id = 7, full_name = ''bob''\<rparr>),
      GetChatAdministrators (- 100),
      RestrictChatMember (- 100) 7 NoMessages (Some 4600),
      ReplyText (Muted \<lparr>user_id = 7, full_name = ''bob''\<rparr> 60),
      ReplyText (AutoMuted \<lparr>user_id = 7, full_name = ''bob''\<rparr>)]
   \<and> stored_count (snd (warn
     \<lparr>message = Some (Message 11 1000 (Some \<lparr>user_id = 1, full_name = ''ann''\<rparr>)
        (Some (Message 10 900 (Some \<lparr>user_id = 7, full_name = ''bob''\<rparr>) None [])) []),
      effective_chat = Some (- 100), effective_user = Some \<lparr>user_id = 1, full_name = ''ann''\<rparr>,
      chat_member = None\<rparr>
     \<lparr>args = [], warnings = \<lparr>path = ''w.json'', data = [(''-100'', [(''7'', 2)])]\<rparr>,
      settings = \<lparr>bot_token = ''123:abc'', warnings_limit = 3, storage_path = ''w.json'',
        admin_only_links = True\<rparr>,
      admin_ids = None, disk = [], chat_admins = [(- 100, [1])], calls = []\<rparr>)) (- 100) 7 = 0
   \<and> calls (snd (warn
     \<lparr>message = Some (Message 11 1000 (Some \<lparr>user_id = 1, full_name = ''ann''\<rparr>)
        (Some (Message 10 900 (Some \<lparr>user_id = 7, full_name = ''bob''\<rparr>) None [])) []),
      effective_chat = Some (- 100), effective_user = Some \<lparr>user_id = 1, full_name = ''ann''\<rparr>,
      chat_member = None\<rparr>
     (snd (warn
     \<lparr>message = Some (Message 11 1000 (Some \<lparr>user_id = 1, full_name = ''ann''\<rparr>)
        (Some (Message 10 900 (Some \<lparr>user_id = 7, full_name = ''bob''\<rparr>) None [])) []),
      effective_chat = Some (- 100), effective_user = Some \<lparr>user_id = 1, full_name = ''ann''\<rparr>,
      chat_member = None\<rparr>
     (snd (warn
     \<lparr>message = Some (Message 11 1000 (Some \<lparr>user_id = 1, full_name = ''ann''\<rparr>)
        (Some (Message 10 900 (Some \<lparr>user_id = 7, full_name = ''bob''\<rparr>) None [])) []),
      effective_chat = Some (- 100), effective_user = Some \<lparr>user_id = 1, full_name = ''ann''\<rparr>,
      chat_member = None\<rparr>
     \<lparr>args = [], warnings = \<lparr>path = ''w.json'', data = []\<rparr>,
      settings = \<lparr>bot_token = ''123:abc'', warnings_limit = 3, storage_path = ''w.json'',
        admin_only_links = True\<rparr>,
      admin_ids = None, disk = [], chat_admins = [(- 100, [1])], calls = []\<rparr>))))))
   = [GetChatAdministrators (- 100),
      ReplyText (WarnRecorded 1 \<lparr>user_id = 7, full_name = ''bob''\<rparr>),
      GetChatAdministrators (- 100),
      ReplyText (WarnRecorded 2 \<lparr>user_id = 7, full_name = ''bob''\<rparr>),
      GetChatAdministrators (- 100),
      ReplyText (WarnRecorded 3 \<lparr>user_id = 7, full_name = ''bob''\<rparr>),
      GetChatAdministrators (- 100),
      RestrictChatMember (- 100) 7 NoMessages (Some 4600),
      ReplyText (Muted \<lparr>user_id = 7, full_name = ''bob''\<rparr> 60),
      ReplyText (AutoMuted \<lparr>user_id = 7, full_name = ''bob''\<rparr>)]"
proof -
  let ?m = "Message 11 1000 (Some \<lparr>user_id = 1, full_name = ''ann''\<rparr>)
        (Some (Message 10 900 (Some \<lparr>user_id = 7, full_name = ''bob''\<rparr>) None [])) []"
  let ?u = "\<lparr>message = Some ?m,
      effective_chat = Some (- 100), effective_user = Some \<lparr>user_id = 1, full_name = ''ann''\<rparr>,
      chat_member = None\<rparr>"
  let ?c = "\<lparr>args = [], warnings = \<lparr>path = ''w.json'', data = [(''-100'', [(''7'', 2)])]\<rparr>,
      settings = \<lparr>bot_token = ''123:abc'', warnings_limit = 3, storage_path = ''w.json'',
        admin_only_links = True\<rparr>,
      admin_ids = None, disk = [], chat_admins = [(- 100, [1])], calls = []\<rparr>"
  let ?t = "\<lparr>user_id = 7, full_name = ''bob''\<rparr>"
  have t: "targets ?u ?c (- 100) ?m ?t"
    by (simp add: targets_def is_admin_def dict_get_def)
  have s: "str_int (- 100) = ''-100''" "str_int 7 = ''7''"
    by (simp_all add: str_int_examples)
  have "stored_count ?c (- 100) 7 = 2"
    by (simp add: stored_count_def get_def s dict_get_def)
  then have i: "fst (increment (- 100) (user_id ?t) (warnings ?c, disk ?c)) = 3"
    by (simp add: fst_increment stored_count_def fst_get)
  then have "warnings_limit (settings ?c) \<le> fst (increment (- 100) (user_id ?t) (warnings ?c, disk ?c))
      \<and> date ?m + 60 * 60 \<le> max_timestamp"
    by (simp add: max_timestamp_def)
  then obtain c' where "warn ?u ?c = (Returned, c')"
      "calls c' = calls ?c @ [GetChatAdministrators (- 100),
                 ReplyText (WarnRecorded (fst (increment (- 100) (user_id ?t) (warnings ?c, disk ?c))) ?t),
                 GetChatAdministrators (- 100),
                 RestrictChatMember (- 100) (user_id ?t) NoMessages (Some (date ?m + 60 * 60)),
                 ReplyText (Muted ?t 60),
                 ReplyText (AutoMuted ?t)]"
      "stored_count c' (- 100) (user_id ?t) = 0"
    using warn_reaching_limit_mutes_and_resets [OF t] by blast
  then have first: "calls (snd (warn ?u ?c)) = [GetChatAdministrators (- 100),
      ReplyText (WarnRecorded 3 ?t), GetChatAdministrators (- 100),
      RestrictChatMember (- 100) 7 NoMessages (Some 4600),
      ReplyText (Muted ?t 60), ReplyText (AutoMuted ?t)]
    \<and> stored_count (snd (warn ?u ?c)) (- 100) 7 = 0"
    using i by simp
  let ?c0 = "\<lparr>args = [], warnings = \<lparr>path = ''w.json'', data = []\<rparr>,
      settings = \<lparr>bot_token = ''123:abc'', warnings_limit = 3, storage_path = ''w.json'',
        admin_only_links = True\<rparr>,
      admin_ids = None, disk = [], chat_admins = [(- 100, [1])], calls = []\<rparr>"
  have t0: "targets ?u ?c0 (- 100) ?m ?t"
    by (simp add: targets_def is_admin_def dict_get_def)
  have h0: "warnings_limit (settings ?c0) = 3 \<and> stored_count ?c0 (- 100) (user_id ?t) = 0
      \<and> targets ?u ?c0 (- 100) ?m ?t \<and> targets ?u ?c0 (- 100) ?m ?t
      \<and> date ?m + 60 * 60 \<le> max_timestamp"
    using t0 by (simp add: stored_count_def get_def dict_get_def max_timestamp_def)
  obtain c1 c2 c3 where r: "warn ?u ?c0 = (Returned, c1)" "warn ?u c1 = (Returned, c2)"
      "warn ?u c2 = (Returned, c3)"
      "calls c1 = calls ?c0 @ [GetChatAdministrators (- 100), ReplyText (WarnRecorded 1 ?t)]"
      "calls c2 = calls c1 @ [GetChatAdministrators (- 100), ReplyText (WarnRecorded 2 ?t)]"
      "calls c3 = calls c2 @ [GetChatAdministrators (- 100),
                 ReplyText (WarnRecorded 3 ?t),
                 GetChatAdministrators (- 100),
                 RestrictChatMember (- 100) (user_id ?t) NoMessages (Some (date ?m + 60 * 60)),
                 ReplyText (Muted ?t 60),
                 ReplyText (AutoMuted ?t)]"
    using warn_reaching_limit_mutes_and_resets [OF t0, of ?u ?m ?u ?m] h0 by blast
  have "calls (snd (warn ?u (snd (warn ?u (snd (warn ?u ?c0)))))) = calls c3"
    by (simp add: r(1,2,3))
  then have second: "calls (snd (warn ?u (snd (warn ?u (snd (warn ?u ?c0)))))) =
     [GetChatAdministrators (- 100), ReplyText (WarnRecorded 1 ?t),
      GetChatAdministrators (- 100), ReplyText (WarnRecorded 2 ?t),
      GetChatAdministrators (- 100), ReplyText (WarnRecorded 3 ?t),
      GetChatAdministrators (- 100),
      RestrictChatMember (- 100) 7 NoMessages (Some 4600),
      ReplyText (Muted ?t 60), ReplyText (AutoMuted ?t)]"
    by (simp add: r(4,5,6))
  show ?thesis
    using first second by (rule conjI [THEN iffD1 [OF conj_assoc]])
qed

section \<open>Commands that are not replies\<close>

text \<open>When the update carries a message and that message is no reply, each of the seven
  reply-targeted handlers returns normally after sending its guidance, and changes
  nothing else.\<close>

lemma not_a_reply_gets_guidance:
  assumes "message u = Some m" and "reply_to_message m = None"
  shows "warn u c = (Returned, c\<lparr>calls := calls c @ [ReplyText WarnGuide]\<rparr>)"
    and "warn_info u c = (Returned, c\<lparr>calls := calls c @ [ReplyText WarnsGuide]\<rparr>)"
    and "mute u c = (Returned, c\<lparr>calls := calls c @ [ReplyText MuteGuide]\<rparr>)"
    and "unmute u c = (Returned, c\<lparr>calls := calls c @ [ReplyText UnmuteGuide]\<rparr>)"
    and "ban u c = (Returned, c\<lparr>calls := calls c @ [ReplyText BanGuide]\<rparr>)"
    and "reset_warns u c = (Returned, c\<lparr>calls := calls c @ [ReplyText ResetGuide]\<rparr>)"
    and "pin u c = (Returned, c\<lparr>calls := calls c @ [ReplyText PinGuide]\<rparr>)"
  using assms
  by (simp_all add: warn_def warn_info_def mute_def mute_user_def unmute_def ban_def
      reset_warns_def pin_def call_def)

text \<open>
  Claim C6 promises a guidance reply and no exception whenever the command's message is
  not a reply. The guard of the seven reply-targeted handlers also takes the branch when
  the update has no \<open>message\<close> (the update of an edited message), and there the branch
  itself fails: each handler raises \<^verbatim>\<open>AttributeError\<close>, sends nothing and leaves the
  context as it was.
\<close>

theorem no_message_raises_attribute_error:
  "warn (u\<lparr>message := None\<rparr>) c = (Raised AttributeError, c)
   \<and> warn_info (u\<lparr>message := None\<rparr>) c = (Raised AttributeError, c)
   \<and> mute (u\<lparr>message := None\<rparr>) c = (Raised AttributeError, c)
   \<and> unmute (u\<lparr>message := None\<rparr>) c = (Raised AttributeError, c)
   \<and> ban (u\<lparr>message := None\<rparr>) c = (Raised AttributeError, c)
   \<and> reset_warns (u\<lparr>message := None\<rparr>) c = (Raised AttributeError, c)
   \<and> pin (u\<lparr>message := None\<rparr>) c = (Raised AttributeError, c)"
  by (simp add: warn_def warn_info_def mute_def mute_user_def unmute_def ban_def
      reset_warns_def pin_def)

theorem no_message_raises_attribute_error_witness:
  "warn \<lparr>message = None, effective_chat = Some (- 100),
         effective_user = Some \<lparr>user_id = 1, full_name = ''ann''\<rparr>, chat_member = None\<rparr>
     \<lparr>args = [], warnings = \<lparr>path = ''w.json'', data = []\<rparr>,
      settings = \<lparr>bot_token = ''123:abc'', warnings_limit = 3, storage_path = ''w.json'',
        admin_only_links = True\<rparr>,
      admin_ids = None, disk = [], chat_admins = [(- 100, [1])], calls = []\<rparr>
   = (Raised AttributeError,
     \<lparr>args = [], warnings = \<lparr>path = ''w.json'', data = []\<rparr>,
      settings = \<lparr>bot_token = ''123:abc'', warnings_limit = 3, storage_path = ''w.json'',
        admin_only_links = True\<rparr>,
      admin_ids = None, disk = [], chat_admins = [(- 100, [1])], calls = []\<rparr>)"
  using no_message_raises_attribute_error
    [of "\<lparr>message = None, effective_chat = Some (- 100),
         effective_user = Some \<lparr>user_id = 1, full_name = ''ann''\<rparr>, chat_member = None\<rparr>"
      "\<lparr>args = [], warnings = \<lparr>path = ''w.json'', data = []\<rparr>,
      settings = \<lparr>bot_token = ''123:abc'', warnings_limit = 3, storage_path = ''w.json'',
        admin_only_links = True\<rparr>,
      admin_ids = None, disk = [], chat_admins = [(- 100, [1])], calls = []\<rparr>"]
  by simp

section \<open>Commands of users who are no administrators\<close>

lemma filter_moderation_reply [simp]:
  "is_moderation (ReplyText x) = False" "is_moderation (GetChatAdministrators k) = False"
  by simp_all

lemma refused_warn:
  assumes "effective_chat u = Some chat_id"
    and "\<not> is_admin (effective_user u) (dict_get chat_id [] (chat_admins c))"
  shows "unchanged c (snd (warn u c))"
    and "has_target u \<Longrightarrow> warn u c = (Returned,
       c\<lparr>calls := calls c @ [GetChatAdministrators chat_id, ReplyText WarnAdminOnly]\<rparr>)"
  using assms
  by (auto simp: warn_def unchanged_def has_target_def get_admin_ids_def call_def
      split: option.splits)

lemma refused_mute:
  assumes "effective_chat u = Some chat_id"
    and "\<not> is_admin (effective_user u) (dict_get chat_id [] (chat_admins c))"
  shows "unchanged c (snd (mute u c))"
    and "has_target u \<Longrightarrow> mute u c = (Returned,
       c\<lparr>calls := calls c @ [GetChatAdministrators chat_id, ReplyText MuteAdminOnly]\<rparr>)"
  using assms
  by (auto simp: mute_def mute_user_def unchanged_def has_target_def get_admin_ids_def call_def
      split: option.splits)

lemma refused_unmute:
  assumes "effective_chat u = Some chat_id"
    and "\<not> is_admin (effective_user u) (dict_get chat_id [] (chat_admins c))"
  shows "unchanged c (snd (unmute u c))"
    and "has_target u \<Longrightarrow> unmute u c = (Returned,
       c\<lparr>calls := calls c @ [GetChatAdministrators chat_id, ReplyText UnmuteAdminOnly]\<rparr>)"
  using assms
  by (auto simp: unmute_def unchanged_def has_target_def get_admin_ids_def call_def
      split: option.splits)

lemma refused_ban:
  assumes "effective_chat u = Some chat_id"
    and "\<not> is_admin (effective_user u) (dict_get chat_id [] (chat_admins c))"
  shows "unchanged c (snd (ban u c))"
    and "has_target u \<Longrightarrow> ban u c = (Returned,
       c\<lparr>calls := calls c @ [GetChatAdministrators chat_id, ReplyText BanAdminOnly]\<rparr>)"
  using assms
  by (auto simp: ban_def unchanged_def has_target_def get_admin_ids_def call_def
      split: option.splits)

lemma refused_reset_warns:
  assumes "effective_chat u = Some chat_id"
    and "\<not> is_admin (effective_user u) (dict_get chat_id [] (chat_admins c))"
  shows "unchanged c (snd (reset_warns u c))"
    and "has_target u \<Longrightarrow> reset_warns u c = (Returned,
       c\<lparr>calls := calls c @ [GetChatAdministrators chat_id, ReplyText ResetAdminOnly]\<rparr>)"
  using assms
  by (auto simp: reset_warns_def unchanged_def has_target_def get_admin_ids_def call_def
      split: option.splits)

lemma refused_pin:
  assumes "effective_chat u = Some chat_id"
    and "\<not> is_admin (effective_user u) (dict_get chat_id [] (chat_admins c))"
  shows "unchanged c (snd (pin u c))"
    and "is_reply u \<Longrightarrow> pin u c = (Returned,
       c\<lparr>calls := calls c @ [GetChatAdministrators chat_id, ReplyText PinAdminOnly]\<rparr>)"
  using assms
  by (auto simp: pin_def unchanged_def is_reply_def get_admin_ids_def call_def
      split: option.splits)

lemma refused_lock_chat:
  assumes "effective_chat u = Some chat_id"
    and "\<not> is_admin (effective_user u) (dict_get chat_id [] (chat_admins c))"
  shows "unchanged c (snd (lock_chat u c))"
    and "message u \<noteq> None \<Longrightarrow> lock_chat u c = (Returned,
       c\<lparr>calls := calls c @ [GetChatAdministrators chat_id, ReplyText LockAdminOnly]\<rparr>)"
  using assms
  by (auto simp: lock_chat_def unchanged_def reply_text_def get_admin_ids_def call_def
      split: option.splits)

lemma refused_unlock_chat:
  assumes "effective_chat u = Some chat_id"
    and "\<not> is_admin (effective_user u) (dict_get chat_id [] (chat_admins c))"
  shows "unchanged c (snd (unlock_chat u c))"
    and "message u \<noteq> None \<Longrightarrow> unlock_chat u c = (Returned,
       c\<lparr>calls := calls c @ [GetChatAdministrators chat_id, ReplyText UnlockAdminOnly]\<rparr>)"
  using assms
  by (auto simp: unlock_chat_def unchanged_def reply_text_def get_admin_ids_def call_def
      split: option.splits)

text \<open>For every admin-gated command, every update and every context: when the invoking
  user is not among the administrators the platform reports for the chat, the store and
  its file are the same before and after the handler, and the handler makes no
  moderation call. The lemmas above add that the handler returns after the fetch of the
  administrators and the command's refusal whenever the update carries a message that
  passes the guards on the reply.\<close>

lemma non_admin_unchanged:
  assumes "refusal h = Some refused"
    and "effective_chat u = Some chat_id"
    and "\<not> is_admin (effective_user u) (dict_get chat_id [] (chat_admins c))"
  shows "warnings (snd (handle h u c)) = warnings c
     \<and> disk (snd (handle h u c)) = disk c
     \<and> filter is_moderation (calls (snd (handle h u c))) = filter is_moderation (calls c)"
proof -
  have "unchanged c (snd (handle h u c))"
  proof (cases h)
    case CmdWarn
    then show ?thesis
      using refused_warn(1) [OF assms(2,3)] by simp
  next
    case CmdMute
    then show ?thesis
      using refused_mute(1) [OF assms(2,3)] by simp
  next
    case CmdUnmute
    then show ?thesis
      using refused_unmute(1) [OF assms(2,3)] by simp
  next
    case CmdBan
    then show ?thesis
      using refused_ban(1) [OF assms(2,3)] by simp
  next
    case CmdLock
    then show ?thesis
      using refused_lock_chat(1) [OF assms(2,3)] by simp
  next
    case CmdUnlock
    then show ?thesis
      using refused_unlock_chat(1) [OF assms(2,3)] by simp
  next
    case CmdResetwarns
    then show ?thesis
      using refused_reset_warns(1) [OF assms(2,3)] by simp
  next
    case CmdPin
    then show ?thesis
      using refused_pin(1) [OF assms(2,3)] by simp
  qed (use assms(1) in simp_all)
  then show ?thesis
    by (simp add: unchanged_def)
qed

text \<open>
  Claim C4 promises the refusal to every invoker who is not in the fetched list of
  administrators. \<open>/lock\<close> and \<open>/unlock\<close> fetch the list first and send the refusal with
  \<open>update.message.reply_text\<close>: on an update without \<open>message\<close> (the update of an edited
  message) the list is fetched, the invoker is found not to be in it, and the handler
  raises \<^verbatim>\<open>AttributeError\<close> instead of sending the refusal.
\<close>

theorem non_admin_lock_without_message_raises:
  assumes "message u = None"
    and "effective_chat u = Some chat_id"
    and "\<not> is_admin (effective_user u) (dict_get chat_id [] (chat_admins c))"
  shows "lock_chat u c
       = (Raised AttributeError, c\<lparr>calls := calls c @ [GetChatAdministrators chat_id]\<rparr>)
     \<and> unlock_chat u c
       = (Raised AttributeError, c\<lparr>calls := calls c @ [GetChatAdministrators chat_id]\<rparr>)"
  using assms
  by (simp add: lock_chat_def unlock_chat_def get_admin_ids_def reply_text_def)

theorem non_admin_lock_without_message_raises_witness:
  "\<not> is_admin (Some \<lparr>user_id = 9, full_name = ''eve''\<rparr>) (dict_get (- 100 :: int) [] [(- 100, [1])])
   \<and> lock_chat
     \<lparr>message = None, effective_chat = Some (- 100),
      effective_user = Some \<lparr>user_id = 9, full_name = ''eve''\<rparr>, chat_member = None\<rparr>
     \<lparr>args = [], warnings = \<lparr>path = ''w.json'', data = []\<rparr>,
      settings = \<lparr>bot_token = ''123:abc'', warnings_limit = 3, storage_path = ''w.json'',
        admin_only_links = True\<rparr>,
      admin_ids = None, disk = [], chat_admins = [(- 100, [1])], calls = []\<rparr>
   = (Raised AttributeError,
     \<lparr>args = [], warnings = \<lparr>path = ''w.json'', data = []\<rparr>,
      settings = \<lparr>bot_token = ''123:abc'', warnings_limit = 3, storage_path = ''w.json'',
        admin_only_links = True\<rparr>,
      admin_ids = None, disk = [], chat_admins = [(- 100, [1])],
      calls = [GetChatAdministrators (- 100)]\<rparr>)"
proof -
  let ?u = "\<lparr>message = None, effective_chat = Some (- 100),
      effective_user = Some \<lparr>user_id = 9, full_name = ''eve''\<rparr>, chat_member = None\<rparr>"
  let ?c = "\<lparr>args = [], warnings = \<lparr>path = ''w.json'', data = []\<rparr>,
      settings = \<lparr>bot_token = ''123:abc'', warnings_limit = 3, storage_path = ''w.json'',
        admin_only_links = True\<rparr>,
      admin_ids = None, disk = [], chat_admins = [(- 100, [1])], calls = []\<rparr>"
  have m: "message ?u = None" and e: "effective_chat ?u = Some (- 100)"
    by simp_all
  have n: "\<not> is_admin (effective_user ?u) (dict_get (- 100) [] (chat_admins ?c))"
    by (simp add: is_admin_def dict_get_def)
  show ?thesis
    using non_admin_lock_without_message_raises [OF m e n] n by simp
qed

section \<open>The cache of administrator ids\<close>

lemma call_admin_ids: "call x (c\<lparr>admin_ids := a\<rparr>) = (call x c)\<lparr>admin_ids := a\<rparr>"
  by (simp add: call_def)

lemma get_admin_ids_admin_ids:
  "get_admin_ids k (c\<lparr>admin_ids := a\<rparr>)
     = (fst (get_admin_ids k c), (snd (get_admin_ids k c))\<lparr>admin_ids := a\<rparr>)"
  by (simp add: get_admin_ids_def)

lemma reply_text_admin_ids:
  "reply_text u x (c\<lparr>admin_ids := a\<rparr>)
     = (fst (reply_text u x c), (snd (reply_text u x c))\<lparr>admin_ids := a\<rparr>)"
  by (simp add: reply_text_def call_def split: option.splits)

lemma store_increment_admin_ids:
  "store_increment k i (c\<lparr>admin_ids := a\<rparr>)
     = (fst (store_increment k i c), (snd (store_increment k i c))\<lparr>admin_ids := a\<rparr>)"
  by (simp add: store_increment_def split_beta)

lemma store_reset_admin_ids:
  "store_reset k i (c\<lparr>admin_ids := a\<rparr>) = (store_reset k i c)\<lparr>admin_ids := a\<rparr>"
  by (simp add: store_reset_def split_beta)

lemma store_get_admin_ids:
  "store_get k i (c\<lparr>admin_ids := a\<rparr>)
     = (fst (store_get k i c), (snd (store_get k i c))\<lparr>admin_ids := a\<rparr>)"
  by (simp add: store_get_def split_beta)

lemma store_get_all_admin_ids:
  "store_get_all k (c\<lparr>admin_ids := a\<rparr>)
     = (fst (store_get_all k c), (snd (store_get_all k c))\<lparr>admin_ids := a\<rparr>)"
  by (simp add: store_get_all_def split_beta)

lemma welcome_fold_admin_ids:
  "foldl (\<lambda>c' mem. call (ReplyText (WelcomeText mem)) c') (c\<lparr>admin_ids := a\<rparr>) ms
     = (foldl (\<lambda>c' mem. call (ReplyText (WelcomeText mem)) c') c ms)\<lparr>admin_ids := a\<rparr>"
  by (induction ms arbitrary: c) (simp_all add: call_admin_ids)

lemma mute_user_admin_ids:
  "mute_user u dm (c\<lparr>admin_ids := a\<rparr>)
     = (fst (mute_user u dm c), (snd (mute_user u dm c))\<lparr>admin_ids := a\<rparr>)"
  by (simp add: mute_user_def get_admin_ids_def call_def split: option.splits sum.splits)

lemma ignores_static:
  "ignores_admin_ids start" "ignores_admin_ids help_command" "ignores_admin_ids rules"
  by (simp_all add: ignores_admin_ids_def start_def help_command_def rules_def
      reply_text_admin_ids)

lemma ignores_welcome_members: "ignores_admin_ids welcome_members"
  by (simp add: ignores_admin_ids_def welcome_members_def welcome_fold_admin_ids
      split: option.splits)

lemma ignores_mute: "ignores_admin_ids mute"
  by (simp add: ignores_admin_ids_def mute_def mute_user_admin_ids)

lemma ignores_unmute: "ignores_admin_ids unmute"
  by (simp add: ignores_admin_ids_def unmute_def get_admin_ids_def call_def split: option.splits)

lemma ignores_ban: "ignores_admin_ids ban"
  by (simp add: ignores_admin_ids_def ban_def get_admin_ids_def call_def split: option.splits)

lemma ignores_pin: "ignores_admin_ids pin"
  by (simp add: ignores_admin_ids_def pin_def get_admin_ids_def call_def split: option.splits)

lemma ignores_lock_chat: "ignores_admin_ids lock_chat"
  by (simp add: ignores_admin_ids_def lock_chat_def get_admin_ids_def call_def reply_text_def
      split: option.splits)

lemma ignores_unlock_chat: "ignores_admin_ids unlock_chat"
  by (simp add: ignores_admin_ids_def unlock_chat_def get_admin_ids_def call_def reply_text_def
      split: option.splits)

lemma ignores_block_links: "ignores_admin_ids block_links"
  by (simp add: ignores_admin_ids_def block_links_def get_admin_ids_def call_def
      split: option.splits)

lemma ignores_warn_info: "ignores_admin_ids warn_info"
  by (simp add: ignores_admin_ids_def warn_info_def store_get_admin_ids split_beta call_admin_ids
      split: option.splits)

lemma ignores_stats: "ignores_admin_ids stats"
  by (simp add: ignores_admin_ids_def stats_def store_get_all_admin_ids split_beta
      reply_text_admin_ids split: option.splits)

lemma ignores_reset_warns: "ignores_admin_ids reset_warns"
  by (simp add: ignores_admin_ids_def reset_warns_def get_admin_ids_admin_ids split_beta
      call_admin_ids store_reset_admin_ids split: option.splits)

lemma ignores_warn: "ignores_admin_ids warn"
  unfolding ignores_admin_ids_def
proof (intro allI)
  fix u c a
  show "warn u (c\<lparr>admin_ids := a\<rparr>) = (fst (warn u c), (snd (warn u c))\<lparr>admin_ids := a\<rparr>)"
    by (simp add: warn_def get_admin_ids_admin_ids split_beta call_admin_ids
        store_increment_admin_ids store_reset_admin_ids mute_user_admin_ids Let_def
        split: option.splits prod.splits outcome.splits)
qed

lemma track_admin_admin_ids:
  "fst (track_admin u (c\<lparr>admin_ids := a\<rparr>)) = fst (track_admin u (c\<lparr>admin_ids := b\<rparr>))
   \<and> (snd (track_admin u (c\<lparr>admin_ids := a\<rparr>)))\<lparr>admin_ids := x\<rparr>
       = (snd (track_admin u (c\<lparr>admin_ids := b\<rparr>)))\<lparr>admin_ids := x\<rparr>"
  by (simp add: track_admin_def split_beta Let_def split: option.splits)

lemma ignores_handle: "h \<noteq> MyChatMember \<Longrightarrow> ignores_admin_ids (handle h)"
  by (cases h)
    (simp_all add: ignores_static ignores_welcome_members ignores_mute ignores_unmute
      ignores_ban ignores_pin ignores_lock_chat ignores_unlock_chat ignores_block_links
      ignores_warn_info ignores_stats ignores_reset_warns ignores_warn)

text \<open>
  Claim C10. Run any registered handler on the same update in two contexts that differ
  only in the \<open>admin_ids\<close> entry of \<open>bot_data\<close>: the outcomes are equal, and the resulting
  contexts are equal in every component but that entry (the calls made, the store, the
  disk). No handler but \<open>track_admin\<close> writes the entry. The administrators a handler
  checks against are those it fetches from the platform.
\<close>

theorem handlers_ignore_admin_ids_cache:
  "fst (handle h u (c\<lparr>admin_ids := a\<rparr>)) = fst (handle h u (c\<lparr>admin_ids := b\<rparr>))
   \<and> (snd (handle h u (c\<lparr>admin_ids := a\<rparr>)))\<lparr>admin_ids := x\<rparr>
       = (snd (handle h u (c\<lparr>admin_ids := b\<rparr>)))\<lparr>admin_ids := x\<rparr>
   \<and> (h \<noteq> MyChatMember \<longrightarrow> admin_ids (snd (handle h u (c\<lparr>admin_ids := a\<rparr>))) = a)"
proof (cases "h = MyChatMember")
  case True
  then show ?thesis
    using track_admin_admin_ids [where u = u and c = c and a = a and b = b and x = x] by simp
next
  case False
  then have "ignores_admin_ids (handle h)"
    by (rule ignores_handle)
  then have "handle h u (c\<lparr>admin_ids := y\<rparr>)
      = (fst (handle h u c), (snd (handle h u c))\<lparr>admin_ids := y\<rparr>)" for y
    by (simp add: ignores_admin_ids_def)
  then show ?thesis
    by simp
qed

theorem handlers_ignore_admin_ids_cache_witness:
  "handle CmdLock
     \<lparr>message = Some (Message 11 1000 (Some \<lparr>user_id = 9, full_name = ''eve''\<rparr>) None []),
      effective_chat = Some (- 100), effective_user = Some \<lparr>user_id = 9, full_name = ''eve''\<rparr>,
      chat_member = None\<rparr>
     \<lparr>args = [], warnings = \<lparr>path = ''w.json'', data = []\<rparr>,
      settings = \<lparr>bot_token = ''123:abc'', warnings_limit = 3, storage_path = ''w.json'',
        admin_only_links = True\<rparr>,
      admin_ids = Some [(- 100, {9})], disk = [], chat_admins = [(- 100, [1])], calls = []\<rparr>
   = (Returned,
     \<lparr>args = [], warnings = \<lparr>path = ''w.json'', data = []\<rparr>,
      settings = \<lparr>bot_token = ''123:abc'', warnings_limit = 3, storage_path = ''w.json'',
        admin_only_links = True\<rparr>,
      admin_ids = Some [(- 100, {9})], disk = [], chat_admins = [(- 100, [1])],
      calls = [GetChatAdministrators (- 100), ReplyText LockAdminOnly]\<rparr>)"
proof -
  let ?u = "\<lparr>message = Some (Message 11 1000 (Some \<lparr>user_id = 9, full_name = ''eve''\<rparr>) None []),
      effective_chat = Some (- 100), effective_user = Some \<lparr>user_id = 9, full_name = ''eve''\<rparr>,
      chat_member = None\<rparr>"
  let ?c = "\<lparr>args = [], warnings = \<lparr>path = ''w.json'', data = []\<rparr>,
      settings = \<lparr>bot_token = ''123:abc'', warnings_limit = 3, storage_path = ''w.json'',
        admin_only_links = True\<rparr>,
      admin_ids = None, disk = [], chat_admins = [(- 100, [1])], calls = []\<rparr>"
  have n: "handle CmdLock ?u (?c\<lparr>admin_ids := None\<rparr>)
      = (Returned, ?c\<lparr>calls := [GetChatAdministrators (- 100), ReplyText LockAdminOnly]\<rparr>)"
    by (simp add: lock_chat_def get_admin_ids_def is_admin_def dict_get_def reply_text_def
        call_def)
  have d: "CmdLock \<noteq> MyChatMember"
    by simp
  have t: "fst (handle CmdLock ?u (?c\<lparr>admin_ids := Some [(- 100, {9})]\<rparr>))
        = fst (handle CmdLock ?u (?c\<lparr>admin_ids := None\<rparr>))
      \<and> (snd (handle CmdLock ?u (?c\<lparr>admin_ids := Some [(- 100, {9})]\<rparr>)))
            \<lparr>admin_ids := Some [(- 100, {9})]\<rparr>
        = (snd (handle CmdLock ?u (?c\<lparr>admin_ids := None\<rparr>)))
            \<lparr>admin_ids := Some [(- 100, {9})]\<rparr>
      \<and> admin_ids (snd (handle CmdLock ?u (?c\<lparr>admin_ids := Some [(- 100, {9})]\<rparr>)))
        = Some [(- 100, {9})]"
    using handlers_ignore_admin_ids_cache
      [where h = CmdLock and u = ?u and c = ?c and a = "Some [(- 100, {9})]" and b = None
        and x = "Some [(- 100, {9})]"] d
    by blast
  have e: "r\<lparr>admin_ids := admin_ids r\<rparr> = r" for r :: ctx
    by simp
  have "snd (handle CmdLock ?u (?c\<lparr>admin_ids := Some [(- 100, {9})]\<rparr>))
      = (snd (handle CmdLock ?u (?c\<lparr>admin_ids := None\<rparr>)))
            \<lparr>admin_ids := Some [(- 100, {9})]\<rparr>"
    using t e [of "snd (handle CmdLock ?u (?c\<lparr>admin_ids := Some [(- 100, {9})]\<rparr>))"]
    by metis
  then have "handle CmdLock ?u (?c\<lparr>admin_ids := Some [(- 100, {9})]\<rparr>)
      = (Returned, (?c\<lparr>calls := [GetChatAdministrators (- 100), ReplyText LockAdminOnly]\<rparr>)
            \<lparr>admin_ids := Some [(- 100, {9})]\<rparr>)"
    using t n by (simp add: prod_eq_iff)
  then show ?thesis
    by simp
qed

end
